theory Spec2Isabelle
  imports Main
begin

section \<open>Texts, dictionaries and paths of the host\<close>

text \<open>
  The extension is TypeScript running on Node inside the editor. A text is a
  \<^typ>\<open>string\<close>, read as a list of code units below 256. The functions of this section
  are the library operations the source calls (\<^verbatim>\<open>String.prototype\<close>, \<^verbatim>\<open>Map\<close>, the
  \<^verbatim>\<open>path\<close> module in its POSIX variant), written out so that the resolver can be run
  on a concrete file tree.

  Plain objects that the source uses as dictionaries are association lists of their own
  properties in insertion order. The constant names that a build file declares are taken
  not to be canonical array indices (which an object enumerates first) and not to name a
  member of \<^verbatim>\<open>Object.prototype\<close> (which an object answers for a name it does not own).
\<close>

definition startsWith :: "string \<Rightarrow> string \<Rightarrow> bool" where
  "startsWith s p = (take (length p) s = p)"

fun indexOfFrom :: "string \<Rightarrow> string \<Rightarrow> nat \<Rightarrow> nat option" where
  "indexOfFrom sub [] i = (if sub = [] then Some i else None)"
| "indexOfFrom sub (c # cs) i =
     (if startsWith (c # cs) sub then Some i else indexOfFrom sub cs (Suc i))"

text \<open>\<^verbatim>\<open>s.indexOf(sub)\<close>, with \<open>None\<close> for -1, and \<^verbatim>\<open>s.includes(sub)\<close>.\<close>

definition indexOf :: "string \<Rightarrow> string \<Rightarrow> nat option" where
  "indexOf s sub = indexOfFrom sub s 0"

definition strIncludes :: "string \<Rightarrow> string \<Rightarrow> bool" where
  "strIncludes s sub = (indexOf s sub \<noteq> None)"

text \<open>\<^verbatim>\<open>s.split(sep)\<close> for a separator that is not empty.\<close>

fun splitFrom :: "string \<Rightarrow> string \<Rightarrow> string \<Rightarrow> string list" where
  "splitFrom sep acc [] = [rev acc]"
| "splitFrom sep acc (c # cs) =
     (if sep \<noteq> [] \<and> startsWith (c # cs) sep
      then rev acc # splitFrom sep [] (drop (length sep - 1) cs)
      else splitFrom sep (c # acc) cs)"

definition split :: "string \<Rightarrow> string \<Rightarrow> string list" where
  "split s sep = splitFrom sep [] s"

text \<open>\<^verbatim>\<open>parts.join(sep)\<close>.\<close>

fun joinWith :: "string \<Rightarrow> string list \<Rightarrow> string" where
  "joinWith sep [] = []"
| "joinWith sep [x] = x"
| "joinWith sep (x # y # ys) = x @ sep @ joinWith sep (y # ys)"

text \<open>
  The character classes of the patterns. \<^verbatim>\<open>\s\<close> (and \<^verbatim>\<open>trim\<close>) take TAB, LF, VT, FF,
  CR, SPACE and the no-break space; \<^verbatim>\<open>\w\<close> is \<^verbatim>\<open>[A-Za-z0-9_]\<close>.
\<close>

definition isLower :: "char \<Rightarrow> bool" where
  "isLower c = (let n = (of_char c :: nat) in 97 \<le> n \<and> n \<le> 122)"

definition isUpper :: "char \<Rightarrow> bool" where
  "isUpper c = (let n = (of_char c :: nat) in 65 \<le> n \<and> n \<le> 90)"

definition isDigit :: "char \<Rightarrow> bool" where
  "isDigit c = (let n = (of_char c :: nat) in 48 \<le> n \<and> n \<le> 57)"

definition isSpace :: "char \<Rightarrow> bool" where
  "isSpace c = (let n = (of_char c :: nat) in (9 \<le> n \<and> n \<le> 13) \<or> n = 32 \<or> n = 160)"

definition identStart :: "char \<Rightarrow> bool" where
  "identStart c = (isLower c \<or> isUpper c \<or> c = CHR ''_'')"

definition identChar :: "char \<Rightarrow> bool" where
  "identChar c = (identStart c \<or> isDigit c)"

definition upperStart :: "char \<Rightarrow> bool" where
  "upperStart c = (isUpper c \<or> c = CHR ''_'')"

definition upperChar :: "char \<Rightarrow> bool" where
  "upperChar c = (upperStart c \<or> isDigit c)"

definition trim :: "string \<Rightarrow> string" where
  "trim s = rev (dropWhile isSpace (rev (dropWhile isSpace s)))"

text \<open>
  A \<^verbatim>\<open>Map\<close> keeps its keys in insertion order, and \<^verbatim>\<open>set\<close> on a key it has
  replaces the value in place: an association list with \<open>mapSet\<close>, read with
  \<^const>\<open>map_of\<close>.
\<close>

fun mapSet :: "'k \<Rightarrow> 'v \<Rightarrow> ('k \<times> 'v) list \<Rightarrow> ('k \<times> 'v) list" where
  "mapSet k v [] = [(k, v)]"
| "mapSet k v (e # m) = (if fst e = k then (k, v) # m else e # mapSet k v m)"

definition mapDelete :: "'k \<Rightarrow> ('k \<times> 'v) list \<Rightarrow> ('k \<times> 'v) list" where
  "mapDelete k m = filter (\<lambda>e. fst e \<noteq> k) m"

subsection \<open>The path module (POSIX)\<close>

fun normalizeSegs :: "bool \<Rightarrow> string list \<Rightarrow> string list \<Rightarrow> string list" where
  "normalizeSegs allowAboveRoot acc [] = rev acc"
| "normalizeSegs allowAboveRoot acc (s # ss) =
     (if s = [] \<or> s = ''.'' then normalizeSegs allowAboveRoot acc ss
      else if s = ''..'' then
        (if acc \<noteq> [] \<and> hd acc \<noteq> ''..'' then normalizeSegs allowAboveRoot (tl acc) ss
         else if allowAboveRoot then normalizeSegs allowAboveRoot (''..'' # acc) ss
         else normalizeSegs allowAboveRoot acc ss)
      else normalizeSegs allowAboveRoot (s # acc) ss)"

definition normalize :: "string \<Rightarrow> string" where
  "normalize p =
     (if p = [] then ''.''
      else let isAbsolute = (hd p = CHR ''/'');
               trailingSeparator = (last p = CHR ''/'');
               body = joinWith ''/'' (normalizeSegs (\<not> isAbsolute) [] (split p ''/''))
           in if body = [] then (if isAbsolute then ''/'' else if trailingSeparator then ''./'' else ''.'')
              else (if isAbsolute then ''/'' else []) @ body @ (if trailingSeparator then ''/'' else []))"

text \<open>\<^verbatim>\<open>path.join(a, b, ...)\<close>: the arguments that are not empty, joined and normalized.\<close>

definition pathJoin :: "string list \<Rightarrow> string" where
  "pathJoin args =
     (let joined = joinWith ''/'' (filter (\<lambda>a. a \<noteq> []) args)
      in if joined = [] then ''.'' else normalize joined)"

fun dirnameEnd :: "string \<Rightarrow> nat \<Rightarrow> bool \<Rightarrow> nat option" where
  "dirnameEnd p 0 matchedSlash = None"
| "dirnameEnd p (Suc i) matchedSlash =
     (if p ! Suc i = CHR ''/''
      then (if matchedSlash then dirnameEnd p i matchedSlash else Some (Suc i))
      else dirnameEnd p i False)"

definition dirname :: "string \<Rightarrow> string" where
  "dirname p =
     (if p = [] then ''.''
      else case dirnameEnd p (length p - 1) True of
             None \<Rightarrow> (if hd p = CHR ''/'' then ''/'' else ''.'')
           | Some e \<Rightarrow> (if hd p = CHR ''/'' \<and> e = 1 then ''//'' else take e p))"

definition basename :: "string \<Rightarrow> string" where
  "basename p = rev (takeWhile (\<lambda>c. c \<noteq> CHR ''/'') (dropWhile (\<lambda>c. c = CHR ''/'') (rev p)))"

subsection \<open>The file system and the environment\<close>

text \<open>
  What a query can see of the machine: the file tree as a finite table from paths to
  nodes, the two environment variables that locate the cargo home, and the collation
  behind \<^verbatim>\<open>localeCompare(_, undefined, {numeric: true})\<close>, which is the host's. A file
  holds its text, or \<open>None\<close> when it exists but cannot be read; a directory holds its
  listing in the order \<^verbatim>\<open>readdirSync\<close> returns it, or \<open>None\<close> when it cannot be listed.
  Nothing ties a listing to the table, so a listed name may be missing (a dangling link).
\<close>

datatype node = File "string option" | Dir "string list option"

record host =
  nodes :: "(string \<times> node) list"
  CARGO_HOME :: "string option"
  HOME :: "string option"
  localeCompare :: "string \<Rightarrow> string \<Rightarrow> int"

definition existsSync :: "host \<Rightarrow> string \<Rightarrow> bool" where
  "existsSync h p = (map_of (nodes h) p \<noteq> None)"

text \<open>The next three throw where they return \<open>None\<close>.\<close>

definition readFileSync :: "host \<Rightarrow> string \<Rightarrow> string option" where
  "readFileSync h p = (case map_of (nodes h) p of Some (File (Some content)) \<Rightarrow> Some content | _ \<Rightarrow> None)"

definition readdirSync :: "host \<Rightarrow> string \<Rightarrow> string list option" where
  "readdirSync h p = (case map_of (nodes h) p of Some (Dir (Some entries)) \<Rightarrow> Some entries | _ \<Rightarrow> None)"

definition statIsDirectory :: "host \<Rightarrow> string \<Rightarrow> bool option" where
  "statIsDirectory h p =
     (case map_of (nodes h) p of Some (Dir _) \<Rightarrow> Some True | Some (File _) \<Rightarrow> Some False | None \<Rightarrow> None)"

section \<open>Regular expressions\<close>

text \<open>
  The patterns of the source are kept as patterns and run by a backtracking matcher with
  the priorities of the JavaScript engine: \<open>ms r st\<close> lists, best first, the states in
  which \<open>r\<close> can end when it starts in \<open>st\<close>. A state is the character before the
  position (for \<^verbatim>\<open>^\<close> and \<^verbatim>\<open>\b\<close>), the text that remains and the groups captured so far.
  A quantifier is greedy, and an iteration that consumes nothing is not taken.
\<close>

datatype rx =
    One "char \<Rightarrow> bool"
  | Lit string
  | Seq rx rx
  | Alt rx rx
  | Star rx
  | Opt rx
  | Grp nat rx
  | Bol
  | Eol
  | Wordb

type_synonym captures = "(nat \<times> string) list"
type_synonym mstate = "char option \<times> string \<times> captures"

fun ms :: "rx \<Rightarrow> mstate \<Rightarrow> mstate list" where
  "ms (One P) (p, s, c) = (case s of [] \<Rightarrow> [] | x # xs \<Rightarrow> if P x then [(Some x, xs, c)] else [])"
| "ms (Lit l) (p, s, c) =
     (if l = [] then [(p, s, c)]
      else if startsWith s l then [(Some (last l), drop (length l) s, c)] else [])"
| "ms (Seq a b) st = concat (map (ms b) (ms a st))"
| "ms (Alt a b) st = ms a st @ ms b st"
| "ms (Star r) st =
     concat (map (\<lambda>st'. if length (fst (snd st')) < length (fst (snd st)) then ms (Star r) st' else [])
                 (ms r st)) @ [st]"
| "ms (Opt r) st = ms r st @ [st]"
| "ms (Grp i r) (p, s, c) =
     map (\<lambda>(p', s', c'). (p', s', (i, take (length s - length s') s) # c')) (ms r (p, s, c))"
| "ms Bol (p, s, c) = (if p = None then [(p, s, c)] else [])"
| "ms Eol (p, s, c) = (if s = [] then [(p, s, c)] else [])"
| "ms Wordb (p, s, c) =
     (if (case p of None \<Rightarrow> False | Some x \<Rightarrow> identChar x) = (case s of [] \<Rightarrow> False | x # _ \<Rightarrow> identChar x)
      then [] else [(p, s, c)])"

text \<open>
  The leftmost match: its start, its end and its groups. \<open>rxExec\<close> is \<^verbatim>\<open>s.match(r)\<close>
  for a pattern without the \<^verbatim>\<open>g\<close> flag, \<open>rxTest\<close> is \<^verbatim>\<open>r.test(s)\<close>, and \<open>rxAll\<close> is the
  sequence of matches that repeated \<^verbatim>\<open>exec\<close> of a \<^verbatim>\<open>g\<close> pattern walks through (every such
  pattern of the source consumes at least one character).
\<close>

fun searchFrom :: "rx \<Rightarrow> char option \<Rightarrow> string \<Rightarrow> nat \<Rightarrow> (nat \<times> nat \<times> captures) option" where
  "searchFrom r p [] i =
     (case ms r (p, [], []) of
        (p', s', c) # _ \<Rightarrow> Some (i, i, c)
      | [] \<Rightarrow> None)"
| "searchFrom r p (x # xs) i =
     (case ms r (p, x # xs, []) of
        (p', s', c) # _ \<Rightarrow> Some (i, i + (length (x # xs) - length s'), c)
      | [] \<Rightarrow> searchFrom r (Some x) xs (Suc i))"

definition rxExec :: "rx \<Rightarrow> string \<Rightarrow> (nat \<times> nat \<times> captures) option" where
  "rxExec r s = searchFrom r None s 0"

definition rxTest :: "rx \<Rightarrow> string \<Rightarrow> bool" where
  "rxTest r s = (rxExec r s \<noteq> None)"

fun allFrom :: "rx \<Rightarrow> char option \<Rightarrow> string \<Rightarrow> nat \<Rightarrow> (nat \<times> nat \<times> captures) list" where
  "allFrom r p s i =
     (case ms r (p, s, []) of
        (p', s', c) # _ \<Rightarrow>
          (if length s' < length s
           then (i, i + (length s - length s'), c) # allFrom r p' s' (i + (length s - length s'))
           else [])
      | [] \<Rightarrow> (case s of [] \<Rightarrow> [] | x # xs \<Rightarrow> allFrom r (Some x) xs (Suc i)))"

declare allFrom.simps [simp del]

definition rxAll :: "rx \<Rightarrow> string \<Rightarrow> (nat \<times> nat \<times> captures) list" where
  "rxAll r s = allFrom r None s 0"

text \<open>A group of a match: \<open>[]\<close> stands for a group that took no part in it.\<close>

definition grp :: "captures \<Rightarrow> nat \<Rightarrow> string" where
  "grp c i = (case map_of c i of Some g \<Rightarrow> g | None \<Rightarrow> [])"

definition cat :: "rx list \<Rightarrow> rx" where
  "cat rs = foldr Seq rs (Lit [])"

definition plus :: "rx \<Rightarrow> rx" where
  "plus r = Seq r (Star r)"

definition sp :: rx where
  "sp = One isSpace"

text \<open>\<^verbatim>\<open>[a-zA-Z_][a-zA-Z0-9_]*\<close> and \<^verbatim>\<open>[A-Z_][A-Z0-9_]*\<close>\<close>

definition ident :: rx where
  "ident = Seq (One identStart) (Star (One identChar))"

definition upperIdent :: rx where
  "upperIdent = Seq (One upperStart) (Star (One upperChar))"

section \<open>The file index\<close>

record reexport =
  module :: string
  originalName :: string
  line :: nat

record ParsedFile =
  importsMap :: "(string \<times> string) list"
  procedures :: "(string \<times> nat) list"
  reexports :: "(string \<times> reexport) list"
  constants :: "(string \<times> nat) list"

text \<open>
  The three caches of the module: \<^verbatim>\<open>fileCache\<close>, \<^verbatim>\<open>moduleCache\<close> (a resolved path or
  \<^verbatim>\<open>null\<close> per key) and \<^verbatim>\<open>namespaceCache\<close> (per workspace root, the last segment of each
  namespace with its asm directory). Every function that touches one takes the caches
  and returns them.
\<close>

record caches =
  fileCache :: "(string \<times> ParsedFile) list"
  moduleCache :: "(string \<times> string option) list"
  namespaceCache :: "(string \<times> (string \<times> string) list) list"

text \<open>
  The four patterns of \<^verbatim>\<open>parseFile\<close>:
  \<^verbatim>\<open>^\s*use\s+([a-zA-Z_$][a-zA-Z0-9_]*(?:::[a-zA-Z_][a-zA-Z0-9_]*)*)(?:\s*->\s*([a-zA-Z_][a-zA-Z0-9_]*))?\<close>,
  \<^verbatim>\<open>^\s*(?:pub\s+)?use\s+([a-zA-Z_][a-zA-Z0-9_]*)::([a-zA-Z_][a-zA-Z0-9_]*)->([a-zA-Z_][a-zA-Z0-9_]*)\<close>,
  \<^verbatim>\<open>^\s*(?:pub\s+)?proc\s+([a-zA-Z_][a-zA-Z0-9_]*)|^\s*export\.([a-zA-Z_][a-zA-Z0-9_]*)\<close> and
  \<^verbatim>\<open>^\s*(?:pub\s+)?const\s+([A-Z_][A-Z0-9_]*)\s*=\<close>.
\<close>

definition useRx :: rx where
  "useRx = cat [Bol, Star sp, Lit ''use'', plus sp,
     Grp 1 (cat [One (\<lambda>c. identStart c \<or> c = CHR ''$''), Star (One identChar),
                 Star (cat [Lit ''::'', ident])]),
     Opt (cat [Star sp, Lit ''->'', Star sp, Grp 2 ident])]"

definition pubOpt :: rx where
  "pubOpt = Opt (cat [Lit ''pub'', plus sp])"

definition reexportRx :: rx where
  "reexportRx = cat [Bol, Star sp, pubOpt, Lit ''use'', plus sp,
     Grp 1 ident, Lit ''::'', Grp 2 ident, Lit ''->'', Grp 3 ident]"

definition procDeclRx :: rx where
  "procDeclRx = Alt (cat [Bol, Star sp, pubOpt, Lit ''proc'', plus sp, Grp 1 ident])
                    (cat [Bol, Star sp, Lit ''export.'', Grp 2 ident])"

definition constDeclRx :: rx where
  "constDeclRx = cat [Bol, Star sp, pubOpt, Lit ''const'', plus sp, Grp 1 upperIdent, Star sp, Lit ''='']"

definition emptyParsedFile :: ParsedFile where
  "emptyParsedFile = \<lparr>importsMap = [], procedures = [], reexports = [], constants = []\<rparr>"

text \<open>The body of the loop over the lines: line \<open>i\<close> with text \<open>l\<close>.\<close>

definition parseUse :: "string \<Rightarrow> ParsedFile \<Rightarrow> ParsedFile" where
  "parseUse l pf =
     (case rxExec useRx l of
        None \<Rightarrow> pf
      | Some (_, _, c) \<Rightarrow>
          (let fullPath = grp c 1;
               alias = grp c 2;
               moduleName = last (split fullPath ''::'');
               pf1 = pf\<lparr>importsMap := mapSet moduleName fullPath (importsMap pf)\<rparr>
           in if alias \<noteq> [] then pf1\<lparr>importsMap := mapSet alias fullPath (importsMap pf1)\<rparr> else pf1))"

definition parseReexport :: "nat \<Rightarrow> string \<Rightarrow> ParsedFile \<Rightarrow> ParsedFile" where
  "parseReexport i l pf =
     (case rxExec reexportRx l of
        None \<Rightarrow> pf
      | Some (_, _, c) \<Rightarrow>
          (let moduleName = grp c 1;
               pf1 = pf\<lparr>reexports :=
                        mapSet (grp c 3) \<lparr>module = moduleName, originalName = grp c 2, line = i\<rparr> (reexports pf)\<rparr>
           in if map_of (importsMap pf1) moduleName = None
              then pf1\<lparr>importsMap := mapSet moduleName moduleName (importsMap pf1)\<rparr> else pf1))"

definition parseProc :: "nat \<Rightarrow> string \<Rightarrow> ParsedFile \<Rightarrow> ParsedFile" where
  "parseProc i l pf =
     (case rxExec procDeclRx l of
        None \<Rightarrow> pf
      | Some (_, _, c) \<Rightarrow>
          (let procName = (if grp c 1 \<noteq> [] then grp c 1 else grp c 2)
           in if procName \<noteq> [] then pf\<lparr>procedures := mapSet procName i (procedures pf)\<rparr> else pf))"

definition parseConst :: "nat \<Rightarrow> string \<Rightarrow> ParsedFile \<Rightarrow> ParsedFile" where
  "parseConst i l pf =
     (case rxExec constDeclRx l of
        None \<Rightarrow> pf
      | Some (_, _, c) \<Rightarrow> pf\<lparr>constants := mapSet (grp c 1) i (constants pf)\<rparr>)"

definition parseLine :: "nat \<Rightarrow> string \<Rightarrow> ParsedFile \<Rightarrow> ParsedFile" where
  "parseLine i l pf = parseConst i l (parseProc i l (parseReexport i l (parseUse l pf)))"

fun parseLines :: "nat \<Rightarrow> string list \<Rightarrow> ParsedFile \<Rightarrow> ParsedFile" where
  "parseLines i [] pf = pf"
| "parseLines i (l # ls) pf = parseLines (Suc i) ls (parseLine i l pf)"

text \<open>
  \<^verbatim>\<open>parseFile\<close>: the cached summary if there is one; otherwise the summary of the lines,
  which stays empty when reading the file throws, stored in the cache.
\<close>

definition parseFile :: "host \<Rightarrow> caches \<Rightarrow> string \<Rightarrow> ParsedFile \<times> caches" where
  "parseFile h st filePath =
     (case map_of (fileCache st) filePath of
        Some cached \<Rightarrow> (cached, st)
      | None \<Rightarrow>
          (let result = (case readFileSync h filePath of
                           None \<Rightarrow> emptyParsedFile
                         | Some content \<Rightarrow> parseLines 0 (split content [CHR 0x0A]) emptyParsedFile)
           in (result, st\<lparr>fileCache := mapSet filePath result (fileCache st)\<rparr>)))"

text \<open>A line that declares nothing: none of the four patterns matches it.\<close>

definition declaresNothing :: "string \<Rightarrow> bool" where
  "declaresNothing l =
     (rxExec useRx l = None \<and> rxExec reexportRx l = None \<and> rxExec procDeclRx l = None
      \<and> rxExec constDeclRx l = None)"

text \<open>
  \<^verbatim>\<open>clearCache\<close>, in the resolver that reads the build configuration, and in the older
  resolver (\<^verbatim>\<open>src/extension.ts\<close>), whose only cache is \<^verbatim>\<open>fileCache\<close>.
\<close>

definition clearCache :: "caches \<Rightarrow> string \<Rightarrow> caches" where
  "clearCache st filePath = st\<lparr>fileCache := mapDelete filePath (fileCache st), moduleCache := []\<rparr>"

definition clearCache_legacy :: "(string \<times> ParsedFile) list \<Rightarrow> string \<Rightarrow> (string \<times> ParsedFile) list" where
  "clearCache_legacy fc filePath = mapDelete filePath fc"

section \<open>The namespace directory\<close>

fun findProjectRootFrom :: "host \<Rightarrow> nat \<Rightarrow> string \<Rightarrow> string option" where
  "findProjectRootFrom h 0 currentDir = None"
| "findProjectRootFrom h (Suc n) currentDir =
     (let asmDir = pathJoin [currentDir, ''asm'']
      in if existsSync h asmDir \<and> statIsDirectory h asmDir = Some True then Some currentDir
         else let parent = dirname currentDir
              in if parent = currentDir then None else findProjectRootFrom h n parent)"

definition findProjectRoot :: "host \<Rightarrow> string \<Rightarrow> string option" where
  "findProjectRoot h fromFile = findProjectRootFrom h 15 (dirname fromFile)"

fun findWorkspaceRootFrom :: "host \<Rightarrow> nat \<Rightarrow> string \<Rightarrow> string option" where
  "findWorkspaceRootFrom h 0 currentDir = None"
| "findWorkspaceRootFrom h (Suc n) currentDir =
     (let cargoToml = pathJoin [currentDir, ''Cargo.toml'']
      in if existsSync h cargoToml
            \<and> (case readFileSync h cargoToml of
                  Some content \<Rightarrow> strIncludes content ''[workspace]''
                | None \<Rightarrow> False)
         then Some currentDir
         else let parent = dirname currentDir
              in if parent = currentDir then None else findWorkspaceRootFrom h n parent)"

definition findWorkspaceRoot :: "host \<Rightarrow> string \<Rightarrow> string option" where
  "findWorkspaceRoot h fromFile = findWorkspaceRootFrom h 15 (dirname fromFile)"

record nsInfo =
  crateDir :: string
  asmSubDir :: string

text \<open>
  The three patterns run over the text of a \<^verbatim>\<open>build.rs\<close>:
  \<^verbatim>\<open>const\s+(\w+)_LIB_NAMESPACE:\s*&str\s*=\s*"([^"]+)"\<close>,
  \<^verbatim>\<open>const\s+ASM_(\w+)_DIR:\s*&str\s*=\s*"([^"]+)"\<close> and
  \<^verbatim>\<open>assemble_library_from_dir\s*\([^,]+,\s*"([^"]+)"\)\<close>, all with the \<^verbatim>\<open>g\<close> flag.
\<close>

definition dquote :: char where
  "dquote = CHR 0x22"

definition strConstTail :: "nat \<Rightarrow> rx list" where
  "strConstTail i = [Star sp, Lit ''&str'', Star sp, Lit ''='', Star sp, Lit [dquote],
                     Grp i (plus (One (\<lambda>c. c \<noteq> dquote))), Lit [dquote]]"

definition namespaceRegex :: rx where
  "namespaceRegex = cat ([Lit ''const'', plus sp, Grp 1 (plus (One identChar)), Lit ''_LIB_NAMESPACE:'']
                         @ strConstTail 2)"

definition dirRegex :: rx where
  "dirRegex = cat ([Lit ''const'', plus sp, Lit ''ASM_'', Grp 1 (plus (One identChar)), Lit ''_DIR:'']
                   @ strConstTail 2)"

definition assembleRegex :: rx where
  "assembleRegex = cat [Lit ''assemble_library_from_dir'', Star sp, Lit ''('',
                        plus (One (\<lambda>c. c \<noteq> CHR '','')), Lit '','', Star sp, Lit [dquote],
                        Grp 1 (plus (One (\<lambda>c. c \<noteq> dquote))), Lit [dquote], Lit '')'']"

text \<open>
  \<^verbatim>\<open>foundNamespaces\<close> and \<^verbatim>\<open>foundDirs\<close>: the key of every match with its value, a later
  match of a key replacing the value.
\<close>

definition collectConsts :: "rx \<Rightarrow> string \<Rightarrow> (string \<times> string) list" where
  "collectConsts r content = foldl (\<lambda>obj (_, _, c). mapSet (grp c 1) (grp c 2) obj) [] (rxAll r content)"

type_synonym nsTables = "(string \<times> nsInfo) list \<times> (string \<times> string) list"

text \<open>
  The loop that matches the two kinds of constants up, over the entries of
  \<^verbatim>\<open>foundNamespaces\<close>. A name with no directory constant is passed over; this is where a
  name such as \<^verbatim>\<open>constructor\<close> would read a function from \<^verbatim>\<open>foundDirs\<close> in the source.
\<close>

fun matchUp :: "string \<Rightarrow> (string \<times> string) list \<Rightarrow> (string \<times> string) list \<Rightarrow> nsTables \<Rightarrow> nsTables" where
  "matchUp crateD foundDirs [] acc = acc"
| "matchUp crateD foundDirs ((key, namespace) # rest) (namespaces, simpleCache) =
     (case map_of foundDirs key of
        None \<Rightarrow> matchUp crateD foundDirs rest (namespaces, simpleCache)
      | Some asmDir \<Rightarrow>
          (if asmDir = [] then matchUp crateD foundDirs rest (namespaces, simpleCache)
           else let parts = split namespace ''::''
                in matchUp crateD foundDirs rest
                     (mapSet namespace \<lparr>crateDir = crateD, asmSubDir = asmDir\<rparr> namespaces,
                      if length parts \<ge> 2 then mapSet (last parts) asmDir simpleCache else simpleCache)))"

text \<open>The search for a directory constant for a namespace that only an assembly call names.\<close>

fun pickDir :: "string \<Rightarrow> (string \<times> string) list \<Rightarrow> string option \<Rightarrow> string option" where
  "pickDir content [] foundDir = foundDir"
| "pickDir content ((dirKey, dirVal) # rest) foundDir =
     (if strIncludes dirKey ''NOTE_SCRIPT'' \<or> strIncludes dirKey ''ACCOUNT_COMPONENT''
      then pickDir content rest foundDir
      else if rxTest (Lit (''ASM_'' @ dirKey @ ''_DIR'')) content
              \<and> (case foundDir of None \<Rightarrow> True | Some d \<Rightarrow> d = [])
           then pickDir content rest (Some dirVal)
           else pickDir content rest foundDir)"

definition assembleStep :: "string \<Rightarrow> string \<Rightarrow> (string \<times> string) list \<Rightarrow> nsTables
    \<Rightarrow> nat \<times> nat \<times> captures \<Rightarrow> nsTables" where
  "assembleStep crateD content foundDirs acc m =
     (case acc of (namespaces, simpleCache) \<Rightarrow>
        (let namespace = grp (snd (snd m)) 1
         in if map_of namespaces namespace \<noteq> None then acc
            else let nsLast = last (split namespace ''::'');
                     dir = (case pickDir content foundDirs None of
                              None \<Rightarrow> nsLast
                            | Some d \<Rightarrow> if d = [] then nsLast else d)
                 in (mapSet namespace \<lparr>crateDir = crateD, asmSubDir = dir\<rparr> namespaces,
                     mapSet nsLast dir simpleCache)))"

definition scanBuildRs :: "string \<Rightarrow> string \<Rightarrow> nsTables \<Rightarrow> nsTables" where
  "scanBuildRs crateD content acc =
     (let foundNamespaces = collectConsts namespaceRegex content;
          foundDirs = collectConsts dirRegex content
      in foldl (assembleStep crateD content foundDirs)
               (matchUp crateD foundDirs foundNamespaces acc)
               (rxAll assembleRegex content))"

fun scanCrates :: "host \<Rightarrow> string \<Rightarrow> string list \<Rightarrow> nsTables \<Rightarrow> nsTables" where
  "scanCrates h cratesDir [] acc = acc"
| "scanCrates h cratesDir (crate # rest) acc =
     (let buildRsPath = pathJoin [cratesDir, crate, ''build.rs'']
      in if \<not> existsSync h buildRsPath then scanCrates h cratesDir rest acc
         else case readFileSync h buildRsPath of
                None \<Rightarrow> scanCrates h cratesDir rest acc
              | Some content \<Rightarrow>
                  scanCrates h cratesDir rest (scanBuildRs (pathJoin [cratesDir, crate]) content acc))"

text \<open>
  \<^verbatim>\<open>parseBuildRsNamespaces\<close>. With an entry in \<^verbatim>\<open>namespaceCache\<close> the result is rebuilt from
  it: the keys are the cached ones and every \<^verbatim>\<open>crateDir\<close> is the empty string.
\<close>

definition parseBuildRsNamespaces :: "host \<Rightarrow> caches \<Rightarrow> string \<Rightarrow> (string \<times> nsInfo) list \<times> caches" where
  "parseBuildRsNamespaces h st workspaceRoot =
     (case map_of (namespaceCache st) workspaceRoot of
        Some cached \<Rightarrow> (map (\<lambda>(ns, dir). (ns, \<lparr>crateDir = [], asmSubDir = dir\<rparr>)) cached, st)
      | None \<Rightarrow>
          (let cratesDir = pathJoin [workspaceRoot, ''crates'']
           in if \<not> existsSync h cratesDir
              then ([], st\<lparr>namespaceCache := mapSet workspaceRoot [] (namespaceCache st)\<rparr>)
              else (case (case readdirSync h cratesDir of
                            None \<Rightarrow> ([], [])
                          | Some crates \<Rightarrow> scanCrates h cratesDir crates ([], []))
                    of (namespaces, simpleCache) \<Rightarrow>
                      (namespaces,
                       st\<lparr>namespaceCache := mapSet workspaceRoot simpleCache (namespaceCache st)\<rparr>))))"

definition findNamespaceAsmDir :: "host \<Rightarrow> caches \<Rightarrow> string \<Rightarrow> string \<Rightarrow> nsInfo option \<times> caches" where
  "findNamespaceAsmDir h st workspaceRoot namespace =
     (case parseBuildRsNamespaces h st workspaceRoot of (namespaces, st1) \<Rightarrow>
        (case map_of namespaces namespace of
           Some info \<Rightarrow> (Some info, st1)
         | None \<Rightarrow> (map_of namespaces (''miden::'' @ namespace), st1)))"

section \<open>The external registry locator\<close>

text \<open>\<^verbatim>\<open>subPath.replace(/\.masm$/, '')\<close>\<close>

definition stripMasm :: "string \<Rightarrow> string" where
  "stripMasm s = (if length s \<ge> 5 \<and> drop (length s - 5) s = ''.masm'' then take (length s - 5) s else s)"

definition tryModulePaths :: "host \<Rightarrow> string \<Rightarrow> string \<Rightarrow> string option" where
  "tryModulePaths h basePath subPath =
     (let directPath = pathJoin [basePath, subPath]
      in if existsSync h directPath then Some directPath
         else let modPath = pathJoin [basePath, stripMasm subPath, ''mod.masm'']
              in if existsSync h modPath then Some modPath else None)"

text \<open>
  \<^verbatim>\<open>entries.sort((a, b) => b.localeCompare(a, undefined, { numeric: true }))\<close>: the stable
  sort by the comparison, which is the sorted array whenever the comparison is a total
  preorder, as a collation is.
\<close>

fun insertBy :: "('a \<Rightarrow> 'a \<Rightarrow> int) \<Rightarrow> 'a \<Rightarrow> 'a list \<Rightarrow> 'a list" where
  "insertBy cmp x [] = [x]"
| "insertBy cmp x (y # ys) = (if cmp x y \<le> 0 then x # y # ys else y # insertBy cmp x ys)"

definition sortBy :: "('a \<Rightarrow> 'a \<Rightarrow> int) \<Rightarrow> 'a list \<Rightarrow> 'a list" where
  "sortBy cmp xs = foldr (insertBy cmp) xs []"

fun tryVersions :: "host \<Rightarrow> string \<Rightarrow> string \<Rightarrow> string list \<Rightarrow> string option" where
  "tryVersions h indexPath subPath [] = None"
| "tryVersions h indexPath subPath (version # rest) =
     (case tryModulePaths h (pathJoin [indexPath, version, ''asm'']) subPath of
        Some r \<Rightarrow> Some r
      | None \<Rightarrow> tryVersions h indexPath subPath rest)"

fun searchIndexDirs :: "host \<Rightarrow> string \<Rightarrow> string \<Rightarrow> string \<Rightarrow> string list \<Rightarrow> string option" where
  "searchIndexDirs h crateName subPath registrySrc [] = None"
| "searchIndexDirs h crateName subPath registrySrc (indexDir # rest) =
     (let indexPath = pathJoin [registrySrc, indexDir]
      in case readdirSync h indexPath of
           None \<Rightarrow> searchIndexDirs h crateName subPath registrySrc rest
         | Some listing \<Rightarrow>
             (let entries = filter (\<lambda>e. startsWith e (crateName @ ''-'')) listing;
                  sorted = sortBy (\<lambda>a b. localeCompare h b a) entries
              in case tryVersions h indexPath subPath sorted of
                   Some r \<Rightarrow> Some r
                 | None \<Rightarrow> searchIndexDirs h crateName subPath registrySrc rest))"

definition cargoRegistrySrc :: "host \<Rightarrow> string" where
  "cargoRegistrySrc h =
     (let cargoHome = (case CARGO_HOME h of
                         Some c \<Rightarrow> if c \<noteq> [] then c
                                   else pathJoin [case HOME h of Some d \<Rightarrow> d | None \<Rightarrow> [], ''.cargo'']
                       | None \<Rightarrow> pathJoin [case HOME h of Some d \<Rightarrow> d | None \<Rightarrow> [], ''.cargo''])
      in pathJoin [cargoHome, ''registry'', ''src''])"

definition searchCargoCache :: "host \<Rightarrow> string \<Rightarrow> string \<Rightarrow> string option" where
  "searchCargoCache h crateName subPath =
     (let registrySrc = cargoRegistrySrc h
      in if \<not> existsSync h registrySrc then None
         else case readdirSync h registrySrc of
                None \<Rightarrow> None
              | Some indexDirs \<Rightarrow> searchIndexDirs h crateName subPath registrySrc indexDirs)"

section \<open>The path resolver\<close>

text \<open>
  The outcome of a search loop inside a \<^verbatim>\<open>try\<close> block: it returned a value, it ran to
  its end, or a call in it threw and the \<^verbatim>\<open>catch\<close> ended it.
\<close>

datatype 'a outcome = Hit 'a | Miss | Thrown

text \<open>A string that is \<^verbatim>\<open>null\<close> or empty is falsy.\<close>

definition truthy :: "string option \<Rightarrow> string option" where
  "truthy r = (case r of Some s \<Rightarrow> if s = [] then None else Some s | None \<Rightarrow> None)"

text \<open>
  The file name is the last segment with the extension, the segments before it are
  the sub-directory.
\<close>

definition subPathOf :: "string list \<Rightarrow> string" where
  "subPathOf subParts =
     (let fileName = last subParts @ ''.masm'';
          subDir = joinWith ''/'' (butlast subParts)
      in if subDir \<noteq> [] then subDir @ ''/'' @ fileName else fileName)"

text \<open>
  \<^verbatim>\<open>externalNamespaces\<close> is a plain object with one property of its own. Read at any
  other key it answers with the member of that name that it inherits from
  \<^verbatim>\<open>Object.prototype\<close>, if there is one: a function, or the prototype itself at
  \<^verbatim>\<open>__proto__\<close>. Such a value is truthy, and the registry search concatenates it to
  \<^verbatim>\<open>'-'\<close>, so what matters of it is the text that the engine (V8) converts it to.
\<close>

definition externalNamespaces :: "(string \<times> string) list" where
  "externalNamespaces = [(''core'', ''miden-core-lib'')]"

definition objectPrototype :: "(string \<times> string) list" where
  "objectPrototype =
     (''constructor'', ''function Object() { [native code] }'')
     # map (\<lambda>name. (name, ''function '' @ name @ ''() { [native code] }''))
         [''__defineGetter__'', ''__defineSetter__'', ''hasOwnProperty'', ''__lookupGetter__'',
          ''__lookupSetter__'', ''isPrototypeOf'', ''propertyIsEnumerable'', ''toString'',
          ''valueOf'', ''toLocaleString'']
     @ [(''__proto__'', ''[object Object]'')]"

fun searchSubdirs :: "host \<Rightarrow> string \<Rightarrow> string \<Rightarrow> string list \<Rightarrow> string outcome" where
  "searchSubdirs h asmDir subPath [] = Miss"
| "searchSubdirs h asmDir subPath (subdir # rest) =
     (let subdirPath = pathJoin [asmDir, subdir]
      in case statIsDirectory h subdirPath of
           None \<Rightarrow> Thrown
         | Some isDir \<Rightarrow>
             (if isDir
              then (case tryModulePaths h subdirPath subPath of
                      Some r \<Rightarrow> Hit r
                    | None \<Rightarrow> searchSubdirs h asmDir subPath rest)
              else searchSubdirs h asmDir subPath rest))"

text \<open>The namespace is bound by a \<^verbatim>\<open>build.rs\<close>: its directory, then every directory under \<^verbatim>\<open>asm\<close>.\<close>

definition searchNamespaceCrate :: "host \<Rightarrow> nsInfo \<Rightarrow> string \<Rightarrow> string option" where
  "searchNamespaceCrate h info subPath =
     (case tryModulePaths h (pathJoin [crateDir info, ''asm'', asmSubDir info]) subPath of
        Some r \<Rightarrow> Some r
      | None \<Rightarrow>
          (let asmDir = pathJoin [crateDir info, ''asm'']
           in if existsSync h asmDir
              then (case readdirSync h asmDir of
                      None \<Rightarrow> None
                    | Some subdirs \<Rightarrow>
                        (case searchSubdirs h asmDir subPath subdirs of Hit r \<Rightarrow> Some r | _ \<Rightarrow> None))
              else None))"

fun searchCrates :: "host \<Rightarrow> string \<Rightarrow> string \<Rightarrow> string \<Rightarrow> string list \<Rightarrow> string outcome" where
  "searchCrates h cratesDir namespace subPath [] = Miss"
| "searchCrates h cratesDir namespace subPath (crate # rest) =
     (case tryModulePaths h (pathJoin [cratesDir, crate, ''asm'', namespace]) subPath of
        Some r \<Rightarrow> Hit r
      | None \<Rightarrow>
          (let asmDir = pathJoin [cratesDir, crate, ''asm'']
           in if existsSync h asmDir
              then (case readdirSync h asmDir of
                      None \<Rightarrow> Thrown
                    | Some subdirs \<Rightarrow>
                        (case searchSubdirs h asmDir subPath subdirs of
                           Hit r \<Rightarrow> Hit r
                         | Thrown \<Rightarrow> Thrown
                         | Miss \<Rightarrow> searchCrates h cratesDir namespace subPath rest))
              else searchCrates h cratesDir namespace subPath rest))"

definition searchAllCrates :: "host \<Rightarrow> string \<Rightarrow> string \<Rightarrow> string \<Rightarrow> string option" where
  "searchAllCrates h workspaceRoot namespace subPath =
     (let cratesDir = pathJoin [workspaceRoot, ''crates'']
      in if existsSync h cratesDir
         then (case readdirSync h cratesDir of
                 None \<Rightarrow> None
               | Some crates \<Rightarrow>
                   (case searchCrates h cratesDir namespace subPath crates of Hit r \<Rightarrow> Some r | _ \<Rightarrow> None))
         else None)"

text \<open>Rule 1, for a namespace that is not external.\<close>

definition resolveMiden :: "host \<Rightarrow> caches \<Rightarrow> string \<Rightarrow> string \<Rightarrow> string \<Rightarrow> string option \<times> caches" where
  "resolveMiden h st currentFile namespace subPath =
     (case (case findWorkspaceRoot h currentFile of
              None \<Rightarrow> (None, st)
            | Some workspaceRoot \<Rightarrow>
                (case findNamespaceAsmDir h st workspaceRoot (''miden::'' @ namespace) of
                   (nsI, st1) \<Rightarrow>
                     (case truthy (case nsI of None \<Rightarrow> None
                                   | Some info \<Rightarrow> searchNamespaceCrate h info subPath) of
                        Some r \<Rightarrow> (Some r, st1)
                      | None \<Rightarrow> (searchAllCrates h workspaceRoot namespace subPath, st1))))
      of (result, st1) \<Rightarrow>
        (case truthy result of
           Some r \<Rightarrow> (Some r, st1)
         | None \<Rightarrow>
             (case truthy (case findProjectRoot h currentFile of
                             None \<Rightarrow> None
                           | Some projectRoot \<Rightarrow>
                               (let localPath = pathJoin [projectRoot, ''asm'', namespace, subPath]
                                in if existsSync h localPath then Some localPath else None)) of
                Some r \<Rightarrow> (Some r, st1)
              | None \<Rightarrow>
                  (case truthy (searchCargoCache h (''miden-'' @ namespace @ ''-lib'') subPath) of
                     Some r \<Rightarrow> (Some r, st1)
                   | None \<Rightarrow> (searchCargoCache h (''miden-'' @ namespace) subPath, st1)))))"

text \<open>Rule 4: the walk up from the directory of the current file, five levels at most.\<close>

fun searchAlias :: "host \<Rightarrow> string \<Rightarrow> nat \<Rightarrow> string \<Rightarrow> string option" where
  "searchAlias h fileName 0 searchDir = None"
| "searchAlias h fileName (Suc n) searchDir =
     (let libDir = pathJoin [searchDir, ''lib'']
      in if existsSync h libDir \<and> existsSync h (pathJoin [libDir, fileName])
         then Some (pathJoin [libDir, fileName])
         else let sharedDir = pathJoin [searchDir, ''..'', ''shared_modules'']
              in if existsSync h sharedDir \<and> existsSync h (pathJoin [sharedDir, fileName])
                 then Some (pathJoin [sharedDir, fileName])
                 else let parent = dirname searchDir
                      in if parent = searchDir then None else searchAlias h fileName n parent)"

text \<open>Rule 5: the four places of a bare module name, in the order of the array.\<close>

definition bareSearchPaths :: "string \<Rightarrow> string \<Rightarrow> string list" where
  "bareSearchPaths currentDir fileName =
     [pathJoin [currentDir, fileName],
      pathJoin [currentDir, ''lib'', fileName],
      pathJoin [currentDir, ''..'', fileName],
      pathJoin [currentDir, ''..'', ''lib'', fileName]]"

definition resolveBare :: "host \<Rightarrow> string \<Rightarrow> string \<Rightarrow> string option" where
  "resolveBare h currentDir moduleName =
     map_option normalize (find (existsSync h) (bareSearchPaths currentDir (moduleName @ ''.masm'')))"

text \<open>
  \<^verbatim>\<open>resolveModulePath\<close>: the memoized answer for the key, or the answer of the rule that
  the import path selects, stored under the key.
\<close>

definition resolveModulePath :: "host \<Rightarrow> caches \<Rightarrow> string \<Rightarrow> string \<Rightarrow> string \<Rightarrow> string option \<times> caches" where
  "resolveModulePath h st currentFile moduleName importPath =
     (let cacheKey = currentFile @ '':'' @ importPath
      in case map_of (moduleCache st) cacheKey of
           Some cached \<Rightarrow> (truthy cached, st)
         | None \<Rightarrow>
             (let currentDir = dirname currentFile;
                  parts = split importPath ''::''
              in case (if hd parts = ''miden'' \<and> length parts \<ge> 3
                       then (let namespace = parts ! 1;
                                 subPath = subPathOf (drop 2 parts)
                             in case truthy (map_of (externalNamespaces @ objectPrototype) namespace) of
                                  Some crateName \<Rightarrow> (searchCargoCache h crateName subPath, st)
                                | None \<Rightarrow> resolveMiden h st currentFile namespace subPath)
                       else if hd parts = ''std'' \<and> length parts \<ge> 2
                       then (searchCargoCache h ''miden-stdlib'' (subPathOf (drop 1 parts)), st)
                       else if startsWith (hd parts) ''$''
                       then (searchAlias h
                               ((if drop 1 parts = [] then ''undefined'' else last (drop 1 parts)) @ ''.masm'')
                               5 currentDir, st)
                       else if length parts = 1
                       then (resolveBare h currentDir moduleName, st)
                       else (None, st))
                 of (result, st1) \<Rightarrow>
                   (result, st1\<lparr>moduleCache := mapSet cacheKey result (moduleCache st1)\<rparr>)))"

section \<open>The older path resolver\<close>











section \<open>The symbol locator\<close>

datatype position = Position nat nat

datatype location = Location string position

text \<open>
  The patterns built around a name. The source splices the name into the pattern text;
  every caller passes an identifier, for which the splice is the literal.
\<close>

definition procRxFor :: "string \<Rightarrow> rx" where
  "procRxFor name = cat [Bol, Star sp, pubOpt, Lit ''proc'', plus sp, Lit name, Wordb]"

definition exportRxFor :: "string \<Rightarrow> rx" where
  "exportRxFor name = cat [Bol, Star sp, Lit ''export.'', Lit name, Wordb]"

definition procOrExportRxFor :: "string \<Rightarrow> rx" where
  "procOrExportRxFor name = Alt (procRxFor name) (exportRxFor name)"

definition constRxFor :: "string \<Rightarrow> rx" where
  "constRxFor name = cat [Bol, Star sp, pubOpt, Lit ''const'', plus sp, Lit name, Star sp, Lit ''='']"

text \<open>
  The loop shared by the scans: the first line that the pattern matches gives the
  location of the name in it. \<^verbatim>\<open>new vscode.Position\<close> throws on the column -1.
\<close>

fun scanLines :: "rx \<Rightarrow> string \<Rightarrow> string \<Rightarrow> string list \<Rightarrow> nat \<Rightarrow> location outcome" where
  "scanLines r name filePath [] i = Miss"
| "scanLines r name filePath (l # ls) i =
     (if rxTest r l
      then (case indexOf l name of
              Some col \<Rightarrow> Hit (Location filePath (Position i col))
            | None \<Rightarrow> Thrown)
      else scanLines r name filePath ls (Suc i))"

definition scanFile :: "host \<Rightarrow> rx \<Rightarrow> string \<Rightarrow> string \<Rightarrow> location option" where
  "scanFile h r name filePath =
     (case readFileSync h filePath of
        None \<Rightarrow> None
      | Some content \<Rightarrow>
          (case scanLines r name filePath (split content [CHR 0x0A]) 0 of
             Hit loc \<Rightarrow> Some loc
           | _ \<Rightarrow> None))"

definition findConstantInFile :: "host \<Rightarrow> string \<Rightarrow> string \<Rightarrow> location option" where
  "findConstantInFile h filePath constantName = scanFile h (constRxFor constantName) constantName filePath"

definition findProcedureInFile :: "host \<Rightarrow> caches \<Rightarrow> string \<Rightarrow> string \<Rightarrow> location option \<times> caches" where
  "findProcedureInFile h st filePath procedureName =
     (case readFileSync h filePath of
        None \<Rightarrow> (None, st)
      | Some content \<Rightarrow>
          (let ls = split content [CHR 0x0A]
           in case scanLines (procOrExportRxFor procedureName) procedureName filePath ls 0 of
                Hit loc \<Rightarrow> (Some loc, st)
              | Thrown \<Rightarrow> (None, st)
              | Miss \<Rightarrow>
                  (case parseFile h st filePath of (pf, st1) \<Rightarrow>
                     (case map_of (reexports pf) procedureName of
                        None \<Rightarrow> (None, st1)
                      | Some re \<Rightarrow>
                          (if line re < length ls
                           then (case indexOf (ls ! line re) procedureName of
                                   Some col \<Rightarrow> (Some (Location filePath (Position (line re) col)), st1)
                                 | None \<Rightarrow> (None, st1))
                           else (None, st1))))))"

text \<open>\<^verbatim>\<open>imports.get(name) || name\<close>\<close>

definition importPathOf :: "(string \<times> string) list \<Rightarrow> string \<Rightarrow> string" where
  "importPathOf imps name = (case truthy (map_of imps name) of Some p \<Rightarrow> p | None \<Rightarrow> name)"

text \<open>The direct scan for \<^verbatim>\<open>proc\<close> or \<^verbatim>\<open>pub proc\<close> in \<^verbatim>\<open>findProcedureSource\<close>.\<close>

definition directLookup :: "host \<Rightarrow> string \<Rightarrow> string \<Rightarrow> location option" where
  "directLookup h filePath name = scanFile h (procRxFor name) name filePath"

text \<open>
  \<^verbatim>\<open>findProcedureSource\<close>. The recursion follows re-exports from file to file, so the
  function is defined as a partial one: \<open>None\<close> is a lookup that never returns. The set
  of visited keys is one object shared by all the calls; it is passed on and returned.
\<close>

partial_function (option) findProcedureSource ::
    "host \<Rightarrow> caches \<Rightarrow> string \<Rightarrow> string \<Rightarrow> string list
      \<Rightarrow> (location option \<times> caches \<times> string list) option" where
  "findProcedureSource h st filePath procedureName visited =
     (let key = filePath @ '':'' @ procedureName
      in if key \<in> set visited then Some (None, st, visited)
         else case parseFile h st filePath of (pf, st1) \<Rightarrow>
           (case map_of (reexports pf) procedureName of
              None \<Rightarrow> Some (directLookup h filePath procedureName, st1, visited @ [key])
            | Some re \<Rightarrow>
                (case resolveModulePath h st1 filePath (module re)
                        (importPathOf (importsMap pf) (module re)) of
                   (target, st2) \<Rightarrow>
                     (case truthy target of
                        None \<Rightarrow> Some (directLookup h filePath procedureName, st2, visited @ [key])
                      | Some targetFile \<Rightarrow>
                          Option.bind
                            (findProcedureSource h st2 targetFile (originalName re) (visited @ [key]))
                            (\<lambda>(sourceLocation, st3, visited3).
                               case sourceLocation of
                                 Some loc \<Rightarrow> Some (Some loc, st3, visited3)
                               | None \<Rightarrow>
                                   (case directLookup h targetFile (originalName re) of
                                      Some loc \<Rightarrow> Some (Some loc, st3, visited3)
                                    | None \<Rightarrow>
                                        Some (directLookup h filePath procedureName, st3, visited3)))))))"

section \<open>The query front end\<close>

text \<open>
  The document of the editor: its path and the lines of its buffer, which need not be
  the text on disk. \<^verbatim>\<open>lineAt\<close> throws on a line the document does not have.
  \<^verbatim>\<open>getWordRangeAtPosition\<close> is the editor's: with the identifier pattern it returns the
  range of the identifier that the column (clamped to the line) lies in or touches.
\<close>

record document =
  fsPath :: string
  buffer :: "string list"

datatype error = IllegalArgument

definition lineAt :: "document \<Rightarrow> nat \<Rightarrow> string option" where
  "lineAt doc n = (if n < length (buffer doc) then Some (buffer doc ! n) else None)"

definition getWordRangeAtPosition :: "string \<Rightarrow> nat \<Rightarrow> (nat \<times> nat) option" where
  "getWordRangeAtPosition l ch =
     map_option (\<lambda>(s, e, _). (s, e))
       (find (\<lambda>(s, e, _). s \<le> min ch (length l) \<and> min ch (length l) \<le> e) (rxAll ident l))"

type_synonym lookup = "(location option \<times> caches) option"

text \<open>The first pattern that returns a location ends the query; the caches go on to the next.\<close>

definition orElse :: "lookup \<Rightarrow> (caches \<Rightarrow> lookup) \<Rightarrow> lookup" where
  "orElse a g = Option.bind a (\<lambda>(r, st). case r of Some loc \<Rightarrow> Some (Some loc, st) | None \<Rightarrow> g st)"

definition fileStart :: "string option \<Rightarrow> location option" where
  "fileStart target = map_option (\<lambda>f. Location f (Position 0 0)) (truthy target)"

text \<open>The loop over the imports of the current file, in the order of the map.\<close>

fun searchImports :: "host \<Rightarrow> string \<Rightarrow> string \<Rightarrow> (string \<times> string) list \<Rightarrow> caches
    \<Rightarrow> location option \<times> caches" where
  "searchImports h file name [] st = (None, st)"
| "searchImports h file name ((moduleName, importPath) # rest) st =
     (case resolveModulePath h st file moduleName importPath of (target, st1) \<Rightarrow>
        (case truthy target of
           None \<Rightarrow> searchImports h file name rest st1
         | Some targetFile \<Rightarrow>
             (case findProcedureInFile h st1 targetFile name of (found, st2) \<Rightarrow>
                (case found of
                   Some loc \<Rightarrow> (Some loc, st2)
                 | None \<Rightarrow> searchImports h file name rest st2))))"

text \<open>\<^verbatim>\<open>^[A-Z_][A-Z0-9_]*$\<close>, \<^verbatim>\<open>(?:exec|call)\.(ident)::(ident)$\<close>, \<^verbatim>\<open>call\.(ident)$\<close> and the
  pattern of the hover, \<^verbatim>\<open>(?:exec|call)\.(ident)::(ident)\<close>.\<close>

definition upperOnlyRx :: rx where
  "upperOnlyRx = cat [Bol, upperIdent, Eol]"

definition execRx :: rx where
  "execRx = cat [Alt (Lit ''exec'') (Lit ''call''), Lit ''.'', Grp 1 ident, Lit ''::'', Grp 2 ident, Eol]"

definition callLocalRx :: rx where
  "callLocalRx = cat [Lit ''call.'', Grp 1 ident, Eol]"

definition hoverExecRx :: rx where
  "hoverExecRx = cat [Alt (Lit ''exec'') (Lit ''call''), Lit ''.'', Grp 1 ident, Lit ''::'', Grp 2 ident]"

text \<open>Pattern 1: the cursor is in a \<^verbatim>\<open>use\<close> statement.\<close>

definition useStatement :: "host \<Rightarrow> string \<Rightarrow> string \<Rightarrow> string \<Rightarrow> caches \<Rightarrow> location option \<times> caches" where
  "useStatement h file l word st =
     (case rxExec useRx l of
        None \<Rightarrow> (None, st)
      | Some (_, _, c) \<Rightarrow>
          (let fullPath = grp c 1;
               alias = grp c 2;
               pathParts = split fullPath ''::''
           in case (if alias \<noteq> [] \<and> word = alias
                    then (case resolveModulePath h st file (last pathParts) fullPath of
                            (target, st1) \<Rightarrow> (fileStart target, st1))
                    else (None, st)) of
                (Some loc, st1) \<Rightarrow> (Some loc, st1)
              | (None, st1) \<Rightarrow>
                  (if word \<in> set pathParts
                   then (case (if rxTest upperOnlyRx word \<and> word = last pathParts
                               then (case resolveModulePath h st1 file
                                            (if length pathParts \<ge> 2
                                             then pathParts ! (length pathParts - 2) else hd pathParts)
                                            (joinWith ''::'' (butlast pathParts)) of
                                       (target, st2) \<Rightarrow>
                                         (case truthy target of
                                            None \<Rightarrow> (None, st2)
                                          | Some targetFile \<Rightarrow> (findConstantInFile h targetFile word, st2)))
                               else (None, st1)) of
                           (Some loc, st2) \<Rightarrow> (Some loc, st2)
                         | (None, st2) \<Rightarrow>
                             (case resolveModulePath h st2 file (last pathParts) fullPath of
                                (target, st3) \<Rightarrow> (fileStart target, st3)))
                   else (None, st1))))"

text \<open>Pattern 2: \<^verbatim>\<open>exec.module::procedure\<close> or \<^verbatim>\<open>call.module::procedure\<close> ends at the word.\<close>

definition qualifiedCall :: "host \<Rightarrow> string \<Rightarrow> (string \<times> string) list \<Rightarrow> string \<Rightarrow> string \<Rightarrow> caches \<Rightarrow> lookup" where
  "qualifiedCall h file imps linePrefix word st =
     (case rxExec execRx linePrefix of
        None \<Rightarrow> Some (None, st)
      | Some (_, _, c) \<Rightarrow>
          (let moduleName = grp c 1;
               procedureName = grp c 2
           in case resolveModulePath h st file moduleName (importPathOf imps moduleName) of
                (target, st1) \<Rightarrow>
                  (case truthy target of
                     None \<Rightarrow> Some (None, st1)
                   | Some targetFile \<Rightarrow>
                       (if word = moduleName then Some (Some (Location targetFile (Position 0 0)), st1)
                        else if word = procedureName
                        then Option.bind (findProcedureSource h st1 targetFile procedureName [])
                               (\<lambda>(sourceLocation, st2, _).
                                  case sourceLocation of
                                    Some loc \<Rightarrow> Some (Some loc, st2)
                                  | None \<Rightarrow> Some (findProcedureInFile h st2 targetFile procedureName))
                        else Some (None, st1)))))"

text \<open>Pattern 2b: \<^verbatim>\<open>call.procedure\<close> with no \<^verbatim>\<open>::\<close> before the end of the word.\<close>

definition localCall :: "host \<Rightarrow> string \<Rightarrow> (string \<times> string) list \<Rightarrow> string \<Rightarrow> caches \<Rightarrow> location option \<times> caches" where
  "localCall h file imps linePrefix st =
     (case rxExec callLocalRx linePrefix of
        None \<Rightarrow> (None, st)
      | Some (_, _, c) \<Rightarrow>
          (if strIncludes linePrefix ''::'' then (None, st)
           else (case findProcedureInFile h st file (grp c 1) of (found, st1) \<Rightarrow>
                   (case found of
                      Some loc \<Rightarrow> (Some loc, st1)
                    | None \<Rightarrow> searchImports h file (grp c 1) imps st1))))"

text \<open>
  \<^verbatim>\<open>MasmDefinitionProvider.provideDefinition\<close>. \<open>Inr None\<close> is \<^verbatim>\<open>null\<close>: no location. The
  outer \<open>None\<close> is a query that does not return.
\<close>

definition provideDefinition :: "host \<Rightarrow> caches \<Rightarrow> document \<Rightarrow> position
    \<Rightarrow> ((error + location option) \<times> caches) option" where
  "provideDefinition h st doc pos =
     (case pos of Position ln ch \<Rightarrow>
        (case lineAt doc ln of
           None \<Rightarrow> Some (Inl IllegalArgument, st)
         | Some l \<Rightarrow>
             (case getWordRangeAtPosition l ch of
                None \<Rightarrow> Some (Inr None, st)
              | Some (wstart, wend) \<Rightarrow>
                  (let word = take (wend - wstart) (drop wstart l);
                       beforeWord = take wstart l;
                       linePrefix = take wend l
                   in if strIncludes beforeWord ''#'' then Some (Inr None, st)
                      else if length (filter (\<lambda>c. c = dquote) beforeWord) mod 2 = 1 then Some (Inr None, st)
                      else (case parseFile h st (fsPath doc) of (pf, st1) \<Rightarrow>
                        map_option (\<lambda>(r, st'). (Inr r, st'))
                          (orElse (Some (useStatement h (fsPath doc) l word st1)) (\<lambda>st2.
                           orElse (qualifiedCall h (fsPath doc) (importsMap pf) linePrefix word st2) (\<lambda>st3.
                           orElse (Some (localCall h (fsPath doc) (importsMap pf) linePrefix st3)) (\<lambda>st4.
                           orElse (Some (findProcedureInFile h st4 (fsPath doc) word)) (\<lambda>st5.
                           Some (searchImports h (fsPath doc) word (importsMap pf) st5)))))))))))"

text \<open>
  \<^verbatim>\<open>getProcedureDocumentation\<close>: at the first line that defines the procedure, the lines
  before it are walked upwards; \<^verbatim>\<open>#!\<close> lines are collected, blank lines and other comments
  are passed, and anything else ends the walk.
\<close>

fun firstIndexFrom :: "('a \<Rightarrow> bool) \<Rightarrow> 'a list \<Rightarrow> nat \<Rightarrow> nat option" where
  "firstIndexFrom P [] i = None"
| "firstIndexFrom P (x # xs) i = (if P x then Some i else firstIndexFrom P xs (Suc i))"

fun docWalk :: "string list \<Rightarrow> string list \<Rightarrow> string list" where
  "docWalk [] docLines = docLines"
| "docWalk (l # upper) docLines =
     (let commentLine = trim l
      in if startsWith commentLine ''#!'' then docWalk upper (trim (drop 2 commentLine) # docLines)
         else if commentLine = [] \<or> startsWith commentLine ''#'' then docWalk upper docLines
         else docLines)"

definition fence :: string where
  "fence = [CHR 0x60, CHR 0x60, CHR 0x60]"

definition getProcedureDocumentation :: "host \<Rightarrow> string \<Rightarrow> string \<Rightarrow> string option" where
  "getProcedureDocumentation h filePath procedureName =
     (case readFileSync h filePath of
        None \<Rightarrow> None
      | Some content \<Rightarrow>
          (let ls = split content [CHR 0x0A]
           in case firstIndexFrom (rxTest (procRxFor procedureName)) ls 0 of
                None \<Rightarrow> None
              | Some i \<Rightarrow>
                  (let docLines = docWalk (rev (take i ls)) []
                   in if docLines \<noteq> []
                      then Some (fence @ [CHR 0x0A] @ joinWith [CHR 0x0A] docLines @ [CHR 0x0A] @ fence)
                      else Some (''**'' @ procedureName @ ''** in '' @ [CHR 0x60] @ basename filePath
                                 @ [CHR 0x60]))))"

text \<open>\<^verbatim>\<open>MasmHoverProvider.provideHover\<close>; the hover is its markdown text.\<close>

definition provideHover :: "host \<Rightarrow> caches \<Rightarrow> document \<Rightarrow> position \<Rightarrow> (error + string option) \<times> caches" where
  "provideHover h st doc pos =
     (case pos of Position ln ch \<Rightarrow>
        (case lineAt doc ln of
           None \<Rightarrow> (Inl IllegalArgument, st)
         | Some l \<Rightarrow>
             (case getWordRangeAtPosition l ch of
                None \<Rightarrow> (Inr None, st)
              | Some (wstart, wend) \<Rightarrow>
                  (let beforeWord = take wstart l
                   in if strIncludes beforeWord ''#'' then (Inr None, st)
                      else if length (filter (\<lambda>c. c = dquote) beforeWord) mod 2 = 1 then (Inr None, st)
                      else (let word = take (wend - wstart) (drop wstart l)
                            in case parseFile h st (fsPath doc) of (pf, st1) \<Rightarrow>
                              (case rxExec hoverExecRx l of
                                 None \<Rightarrow> (Inr None, st1)
                               | Some (_, _, c) \<Rightarrow>
                                   (if word = grp c 2
                                    then (case resolveModulePath h st1 (fsPath doc) (grp c 1)
                                                 (importPathOf (importsMap pf) (grp c 1)) of
                                            (target, st2) \<Rightarrow>
                                              (case truthy target of
                                                 None \<Rightarrow> (Inr None, st2)
                                               | Some targetFile \<Rightarrow>
                                                   (Inr (truthy (getProcedureDocumentation h targetFile word)), st2)))
                                    else (Inr None, st1))))))))"

declare findProcedureSource.simps [code]


section \<open>Notions used in the statements\<close>



text \<open>A name occurs in a text.\<close>

definition occursIn :: "string \<Rightarrow> string \<Rightarrow> bool" where
  "occursIn name s = (\<exists>ys zs. s = ys @ name @ zs)"





section \<open>Example file trees, caches and documents\<close>

text \<open>The concrete inputs on which the theorems below are instantiated.\<close>

definition noCaches :: caches where
  "noCaches = \<lparr>fileCache = [], moduleCache = [], namespaceCache = []\<rparr>"

definition emptyHost :: host where
  "emptyHost = \<lparr>nodes = [], CARGO_HOME = None, HOME = None, localeCompare = (\<lambda>a b. 0)\<rparr>"

definition plainHost :: host where
  "plainHost =
     \<lparr>nodes = [(''/p/a.masm'', File (Some (''begin'' @ [CHR 0x0A] @ ''  push.1'' @ [CHR 0x0A] @ ''end'')))],
      CARGO_HOME = None, HOME = None, localeCompare = (\<lambda>a b. 0)\<rparr>"

definition warmCaches :: caches where
  "warmCaches = \<lparr>fileCache = [(''/p/a.masm'', emptyParsedFile),
                               (''/p/b.masm'', emptyParsedFile\<lparr>procedures := [(''f'', 3)]\<rparr>)],
                  moduleCache = [(''/p/a.masm:b'', Some ''/p/b.masm'')],
                  namespaceCache = [(''/ws'', [(''foo'', ''foolib'')])]\<rparr>"

definition commentDoc :: document where
  "commentDoc = \<lparr>fsPath = ''/p/main.masm'',
                  buffer = [''push.1 # exec.account::get_nonce'',
                            ''push.'' @ [CHR 0x22] @ ''exec.account::get_nonce'']\<rparr>"


definition registryHost :: host where
  "registryHost =
     \<lparr>nodes = [(''/ws/Cargo.toml'', File (Some ''[workspace]'')),
               (''/ws/asm'', Dir (Some [''core'', ''std''])),
               (''/ws/asm/core'', Dir (Some [''mem.masm''])),
               (''/ws/asm/core/mem.masm'', File (Some ''proc local'')),
               (''/home/u/.cargo/registry/src'', Dir (Some [''index.crates.io''])),
               (''/home/u/.cargo/registry/src/index.crates.io'',
                  Dir (Some [''miden-stdlib-0.13.0'', ''miden-core-lib-0.19.0''])),
               (''/home/u/.cargo/registry/src/index.crates.io/miden-core-lib-0.19.0/asm/mem.masm'',
                  File (Some ''pub proc memcopy'')),
               (''/home/u/.cargo/registry/src/index.crates.io/miden-stdlib-0.13.0/asm/crypto/hashes/blake3.masm'',
                  File (Some ''pub proc hash_2to1''))],
      CARGO_HOME = None, HOME = Some ''/home/u'', localeCompare = (\<lambda>a b. 0)\<rparr>"

definition exportHost :: host where
  "exportHost =
     \<lparr>nodes = [(''/p/old.masm'', File (Some (''export.foo'' @ [CHR 0x0A] @ ''  push.1'' @ [CHR 0x0A] @ ''end'')))],
      CARGO_HOME = None, HOME = None, localeCompare = (\<lambda>a b. 0)\<rparr>"









definition fooHost :: host where
  "fooHost =
     \<lparr>nodes = [(''/ws/Cargo.toml'', File (Some ''[workspace]'')),
               (''/ws/crates'', Dir (Some [''foo-crate''])),
               (''/ws/crates/foo-crate/build.rs'',
                  File (Some (''const FOO_LIB_NAMESPACE: &str = '' @ [CHR 0x22] @ ''miden::foo'' @ [CHR 0x22]
                              @ '';'' @ [CHR 0x0A]
                              @ ''const ASM_FOO_DIR: &str = '' @ [CHR 0x22] @ ''foolib'' @ [CHR 0x22] @ '';''))),
               (''/ws/crates/foo-crate/asm'', Dir (Some [''aaa'', ''foolib''])),
               (''/ws/crates/foo-crate/asm/aaa'', Dir (Some [''bar.masm''])),
               (''/ws/crates/foo-crate/asm/aaa/bar.masm'', File (Some ''pub proc other'')),
               (''/ws/crates/foo-crate/asm/foolib'', Dir (Some [''bar.masm'', ''main.masm'', ''next.masm''])),
               (''/ws/crates/foo-crate/asm/foolib/bar.masm'', File (Some ''pub proc baz'')),
               (''/ws/crates/foo-crate/asm/foolib/main.masm'', File (Some ''use miden::foo::bar'')),
               (''/ws/crates/foo-crate/asm/foolib/next.masm'', File (Some ''use miden::foo::bar''))],
      CARGO_HOME = None, HOME = None, localeCompare = (\<lambda>a b. 0)\<rparr>"

definition afterFirstQuery :: caches where
  "afterFirstQuery =
     snd (resolveModulePath fooHost noCaches ''/ws/crates/foo-crate/asm/foolib/main.masm'' ''bar''
            ''miden::foo::bar'')"

section \<open>Properties of the file index\<close>

lemma map_of_mapDelete:
  "map_of (mapDelete k m) q = (if q = k then None else map_of m q)"
  by (induction m) (auto simp: mapDelete_def)


lemma parseLine_declaresNothing:
  "declaresNothing l \<Longrightarrow> parseLine i l pf = pf"
  by (simp add: declaresNothing_def parseLine_def parseUse_def parseReexport_def parseProc_def
      parseConst_def)

lemma parseLines_declaresNothing:
  "list_all declaresNothing ls \<Longrightarrow> parseLines i ls pf = pf"
  by (induction ls arbitrary: i) (simp_all add: parseLine_declaresNothing)

text \<open>
  Claim C8. \<^verbatim>\<open>parseFile\<close> has no error result: it returns a summary for every path.
  When no summary of the path is cached and the file cannot be read (it is missing, it is
  a directory, or reading it fails), the summary returned and cached has four empty maps;
  and a readable file in which no line matches any of the four declaration patterns gives
  the very same result and the very same caches.
\<close>

theorem parseFile_unreadable_is_empty:
  assumes "map_of (fileCache st) p = None" and "readFileSync h p = None"
  shows "parseFile h st p =
           (\<lparr>importsMap = [], procedures = [], reexports = [], constants = []\<rparr>,
            st\<lparr>fileCache := mapSet p \<lparr>importsMap = [], procedures = [], reexports = [], constants = []\<rparr>
                                (fileCache st)\<rparr>)
         \<and> (\<forall>h' content. readFileSync h' p = Some content
                \<and> list_all declaresNothing (split content [CHR 0x0A])
              \<longrightarrow> parseFile h' st p = parseFile h st p)"
  using assms by (simp add: parseFile_def emptyParsedFile_def parseLines_declaresNothing Let_def)

theorem parseFile_unreadable_is_empty_witness:
  "map_of (fileCache noCaches) ''/p/a.masm'' = None
   \<and> readFileSync emptyHost ''/p/a.masm'' = None
   \<and> readFileSync plainHost ''/p/a.masm'' = Some (''begin'' @ [CHR 0x0A] @ ''  push.1'' @ [CHR 0x0A] @ ''end'')
   \<and> list_all declaresNothing (split (''begin'' @ [CHR 0x0A] @ ''  push.1'' @ [CHR 0x0A] @ ''end'') [CHR 0x0A])
   \<and> fst (parseFile emptyHost noCaches ''/p/a.masm'')
       = \<lparr>importsMap = [], procedures = [], reexports = [], constants = []\<rparr>
   \<and> parseFile plainHost noCaches ''/p/a.masm'' = parseFile emptyHost noCaches ''/p/a.masm''"
proof -
  have a: "map_of (fileCache noCaches) ''/p/a.masm'' = None"
    by (simp add: noCaches_def)
  have b: "readFileSync emptyHost ''/p/a.masm'' = None"
    by (simp add: readFileSync_def emptyHost_def)
  have c: "readFileSync plainHost ''/p/a.masm''
             = Some (''begin'' @ [CHR 0x0A] @ ''  push.1'' @ [CHR 0x0A] @ ''end'')"
    by (simp add: readFileSync_def plainHost_def)
  have d: "list_all declaresNothing
             (split (''begin'' @ [CHR 0x0A] @ ''  push.1'' @ [CHR 0x0A] @ ''end'') [CHR 0x0A])"
    by code_simp
  from parseFile_unreadable_is_empty [OF a b] a b c d show ?thesis
    by auto
qed

text \<open>
  Claim C9. \<^verbatim>\<open>clearCache(p)\<close> leaves no summary cached for \<open>p\<close> and leaves the cached
  summary of every other path as it was. In the resolver that reads the build
  configuration it also empties the cache of resolved paths and does not touch the
  namespace cache; the older resolver has the file cache only.
\<close>

theorem clearCache_removes_one_entry:
  "map_of (fileCache (clearCache st p)) p = None
   \<and> (\<forall>q. q \<noteq> p \<longrightarrow> map_of (fileCache (clearCache st p)) q = map_of (fileCache st) q)
   \<and> moduleCache (clearCache st p) = []
   \<and> namespaceCache (clearCache st p) = namespaceCache st
   \<and> map_of (clearCache_legacy fc p) p = None
   \<and> (\<forall>q. q \<noteq> p \<longrightarrow> map_of (clearCache_legacy fc p) q = map_of fc q)"
  by (simp add: clearCache_def clearCache_legacy_def map_of_mapDelete)

theorem clearCache_removes_one_entry_witness:
  "map_of (fileCache (clearCache warmCaches ''/p/a.masm'')) ''/p/a.masm'' = None
   \<and> ''/p/b.masm'' \<noteq> ''/p/a.masm''
   \<and> map_of (fileCache (clearCache warmCaches ''/p/a.masm'')) ''/p/b.masm''
       = Some (emptyParsedFile\<lparr>procedures := [(''f'', 3)]\<rparr>)
   \<and> moduleCache (clearCache warmCaches ''/p/a.masm'') = []
   \<and> namespaceCache (clearCache warmCaches ''/p/a.masm'') = [(''/ws'', [(''foo'', ''foolib'')])]
   \<and> map_of (clearCache_legacy (fileCache warmCaches) ''/p/a.masm'') ''/p/a.masm'' = None
   \<and> map_of (clearCache_legacy (fileCache warmCaches) ''/p/a.masm'') ''/p/b.masm''
       = Some (emptyParsedFile\<lparr>procedures := [(''f'', 3)]\<rparr>)"
  using clearCache_removes_one_entry [of warmCaches "''/p/a.masm''" "fileCache warmCaches"]
  by (simp add: warmCaches_def)

section \<open>Properties of the query front end\<close>

lemma indexOfFrom_single:
  "(indexOfFrom [c] s i = None) = (c \<notin> set s)"
  by (induction s arbitrary: i) (auto simp: startsWith_def)

lemma strIncludes_single:
  "strIncludes s [c] = (c \<in> set s)"
  by (simp add: strIncludes_def indexOf_def indexOfFrom_single)

text \<open>
  Claim C6. When the cursor is on a word and the part of the line before the start of
  the word contains a \<^verbatim>\<open>#\<close>, or contains an odd number of double quotes, the
  definition lookup and the hover lookup both return \<^verbatim>\<open>null\<close>, and neither reads a file
  nor touches a cache.
\<close>

theorem no_result_in_comment_or_string:
  assumes "lineAt doc ln = Some l"
    and "getWordRangeAtPosition l ch = Some (wstart, wend)"
    and "CHR ''#'' \<in> set (take wstart l) \<or> odd (length (filter (\<lambda>c. c = CHR 0x22) (take wstart l)))"
  shows "provideDefinition h st doc (Position ln ch) = Some (Inr None, st)
         \<and> provideHover h st doc (Position ln ch) = (Inr None, st)"
  using assms
  by (auto simp: provideDefinition_def provideHover_def strIncludes_single dquote_def Let_def odd_iff_mod_2_eq_one)

theorem no_result_in_comment_or_string_witness:
  "lineAt commentDoc 0 = Some ''push.1 # exec.account::get_nonce''
   \<and> getWordRangeAtPosition ''push.1 # exec.account::get_nonce'' 25 = Some (23, 32)
   \<and> CHR ''#'' \<in> set (take 23 ''push.1 # exec.account::get_nonce'')
   \<and> provideDefinition plainHost noCaches commentDoc (Position 0 25) = Some (Inr None, noCaches)
   \<and> provideHover plainHost noCaches commentDoc (Position 0 25) = (Inr None, noCaches)
   \<and> lineAt commentDoc 1 = Some (''push.'' @ [CHR 0x22] @ ''exec.account::get_nonce'')
   \<and> getWordRangeAtPosition (''push.'' @ [CHR 0x22] @ ''exec.account::get_nonce'') 25 = Some (20, 29)
   \<and> odd (length (filter (\<lambda>c. c = CHR 0x22) (take 20 (''push.'' @ [CHR 0x22] @ ''exec.account::get_nonce''))))
   \<and> provideDefinition plainHost noCaches commentDoc (Position 1 25) = Some (Inr None, noCaches)
   \<and> provideHover plainHost noCaches commentDoc (Position 1 25) = (Inr None, noCaches)"
proof -
  have a: "lineAt commentDoc 0 = Some ''push.1 # exec.account::get_nonce''"
    by (simp add: lineAt_def commentDoc_def)
  have b: "getWordRangeAtPosition ''push.1 # exec.account::get_nonce'' 25 = Some (23, 32)"
    by code_simp
  have c: "CHR ''#'' \<in> set (take 23 ''push.1 # exec.account::get_nonce'')"
    by code_simp
  have a': "lineAt commentDoc 1 = Some (''push.'' @ [CHR 0x22] @ ''exec.account::get_nonce'')"
    by (simp add: lineAt_def commentDoc_def)
  have b': "getWordRangeAtPosition (''push.'' @ [CHR 0x22] @ ''exec.account::get_nonce'') 25 = Some (20, 29)"
    by code_simp
  have c': "odd (length (filter (\<lambda>c. c = CHR 0x22) (take 20 (''push.'' @ [CHR 0x22] @ ''exec.account::get_nonce''))))"
    by code_simp
  from no_result_in_comment_or_string [OF a b disjI1 [OF c], of plainHost noCaches]
       no_result_in_comment_or_string [OF a' b' disjI2 [OF c'], of plainHost noCaches]
       a b c a' b' c'
  show ?thesis by simp
qed

section \<open>Properties of the path resolver\<close>









text \<open>
  Claim C2. For an import path whose segments are \<^verbatim>\<open>miden\<close>, \<^verbatim>\<open>core\<close> and at least one
  more, with no memoized answer for the key, the answer of \<^verbatim>\<open>resolveModulePath\<close> is the
  answer of the registry search for the package \<^verbatim>\<open>miden-core-lib\<close>, whatever the current
  file is and whatever lies under its project or workspace root; it is \<^verbatim>\<open>null\<close> when the
  registry search finds nothing. Only the cache of resolved paths changes.
\<close>

theorem core_namespace_resolves_in_registry_only:
  assumes "map_of (moduleCache st) (currentFile @ '':'' @ importPath) = None"
    and "split importPath ''::'' = ''miden'' # ''core'' # rest"
    and "rest \<noteq> []"
  shows "resolveModulePath h st currentFile moduleName importPath =
           (searchCargoCache h ''miden-core-lib'' (subPathOf rest),
            st\<lparr>moduleCache := mapSet (currentFile @ '':'' @ importPath)
                                  (searchCargoCache h ''miden-core-lib'' (subPathOf rest))
                                  (moduleCache st)\<rparr>)"
  using assms
  by (cases rest) (simp_all add: resolveModulePath_def externalNamespaces_def truthy_def Let_def)

theorem core_namespace_resolves_in_registry_only_witness:
  "map_of (moduleCache noCaches) (''/ws/asm/main.masm'' @ '':'' @ ''miden::core::mem'') = None
   \<and> split ''miden::core::mem'' ''::'' = ''miden'' # ''core'' # [''mem'']
   \<and> [''mem''] \<noteq> []
   \<and> existsSync registryHost ''/ws/asm/core/mem.masm''
   \<and> fst (resolveModulePath registryHost noCaches ''/ws/asm/main.masm'' ''mem'' ''miden::core::mem'')
       = Some ''/home/u/.cargo/registry/src/index.crates.io/miden-core-lib-0.19.0/asm/mem.masm''
   \<and> fst (resolveModulePath emptyHost noCaches ''/ws/asm/main.masm'' ''mem'' ''miden::core::mem'') = None"
proof -
  have a: "map_of (moduleCache noCaches) (''/ws/asm/main.masm'' @ '':'' @ ''miden::core::mem'') = None"
    by (simp add: noCaches_def)
  have b: "split ''miden::core::mem'' ''::'' = ''miden'' # ''core'' # [''mem'']" by code_simp
  have c: "[''mem''] \<noteq> ([] :: string list)" by simp
  have d: "searchCargoCache registryHost ''miden-core-lib'' (subPathOf [''mem''])
             = Some ''/home/u/.cargo/registry/src/index.crates.io/miden-core-lib-0.19.0/asm/mem.masm''"
    by code_simp
  have e: "searchCargoCache emptyHost ''miden-core-lib'' (subPathOf [''mem'']) = None"
    by code_simp
  have f: "existsSync registryHost ''/ws/asm/core/mem.masm''"
    by (simp add: existsSync_def registryHost_def)
  from core_namespace_resolves_in_registry_only [OF a b c, of registryHost "''mem''"]
       core_namespace_resolves_in_registry_only [OF a b c, of emptyHost "''mem''"]
       a b d e f
  show ?thesis by simp
qed



section \<open>Properties of the matcher and of the line scans\<close>

lemma ms_suffix:
  "st' \<in> set (ms r st) \<Longrightarrow> \<exists>ys. fst (snd st) = ys @ fst (snd st')"
proof (induction r st arbitrary: st' rule: ms.induct)
  case (1 P p s c)
  then show ?case by (auto split: list.splits if_splits)
next
  case (2 l p s c)
  show ?case
  proof (cases "l = []")
    case True
    with "2.prems" show ?thesis by simp
  next
    case False
    with "2.prems" have "fst (snd st') = drop (length l) s"
      by (auto split: if_splits)
    then have "s = take (length l) s @ fst (snd st')" by simp
    then show ?thesis by auto
  qed
next
  case (3 a b st)
  from "3.prems" obtain st1 where a: "st1 \<in> set (ms a st)" and b: "st' \<in> set (ms b st1)"
    by auto
  from "3.IH"(1) [OF a] obtain ys where "fst (snd st) = ys @ fst (snd st1)" by blast
  moreover from "3.IH"(2) [OF a b] obtain zs where "fst (snd st1) = zs @ fst (snd st')" by blast
  ultimately have "fst (snd st) = (ys @ zs) @ fst (snd st')" by simp
  then show ?case by blast
next
  case (4 a b st)
  from "4.prems" have "st' \<in> set (ms a st) \<or> st' \<in> set (ms b st)" by simp
  with "4.IH" show ?case by blast
next
  case (5 r st)
  from "5.prems" have "st' = st \<or> (\<exists>st1\<in>set (ms r st).
      length (fst (snd st1)) < length (fst (snd st)) \<and> st' \<in> set (ms (Star r) st1))"
    by (subst (asm) ms.simps) (auto simp del: ms.simps split: if_splits)
  then consider "st' = st"
    | st1 where "st1 \<in> set (ms r st)" "length (fst (snd st1)) < length (fst (snd st))"
        "st' \<in> set (ms (Star r) st1)"
    by blast
  then show ?case
  proof cases
    case 1
    then show ?thesis by simp
  next
    case 2
    from "5.IH"(1) [OF 2(1)] obtain ys where "fst (snd st) = ys @ fst (snd st1)" by blast
    moreover from "5.IH"(2) [OF 2(1) 2(2) 2(3)] obtain zs where "fst (snd st1) = zs @ fst (snd st')"
      by blast
    ultimately have "fst (snd st) = (ys @ zs) @ fst (snd st')" by simp
    then show ?thesis by blast
  qed
next
  case (6 r st)
  from "6.prems" have "st' \<in> set (ms r st) \<or> st' = st" by auto
  then show ?case
  proof
    assume "st' \<in> set (ms r st)"
    then show ?thesis by (rule "6.IH")
  next
    assume "st' = st"
    then show ?thesis by simp
  qed
next
  case (7 i r p s c)
  from "7.prems" obtain p' s' c' where m: "(p', s', c') \<in> set (ms r (p, s, c))"
    and "fst (snd st') = s'"
    by auto
  with "7.IH" [OF m] show ?case by simp
next
  case (8 p s c)
  then show ?case by (auto split: if_splits)
next
  case (9 p s c)
  then show ?case by (auto split: if_splits)
next
  case (10 p s c)
  then show ?case by (auto split: if_splits)
qed

lemma indexOfFrom_prefix: "indexOfFrom name (name @ zs) i = Some i"
proof (cases name)
  case Nil
  then show ?thesis by (cases zs) (simp_all add: startsWith_def)
next
  case (Cons n ns)
  then show ?thesis by (simp add: startsWith_def)
qed

lemma indexOfFrom_occurs:
  "indexOfFrom name (ys @ name @ zs) i \<noteq> None"
proof (induction ys arbitrary: i)
  case Nil
  then show ?case by (simp add: indexOfFrom_prefix)
next
  case (Cons y ys)
  then show ?case by simp
qed

lemma indexOf_occurs: "occursIn name s \<Longrightarrow> indexOf s name \<noteq> None"
  unfolding occursIn_def indexOf_def using indexOfFrom_occurs by auto

lemma ms_Lit_first:
  assumes "st' \<in> set (ms (Seq (Lit name) b) st)"
  shows "\<exists>zs. fst (snd st) = name @ zs"
proof -
  obtain p s c where st: "st = (p, s, c)" by (cases st)
  with assms have "name = [] \<or> startsWith s name"
    by (auto split: if_splits)
  then have "take (length name) s = name"
    by (auto simp: startsWith_def)
  then have "s = name @ drop (length name) s"
    using append_take_drop_id [of "length name" s] by simp
  with st show ?thesis by auto
qed

lemma ms_Seq_occurs:
  assumes "st' \<in> set (ms (Seq a b) st)"
    and "\<And>st1 st2. st2 \<in> set (ms b st1) \<Longrightarrow> occursIn name (fst (snd st1))"
  shows "occursIn name (fst (snd st))"
proof -
  from assms(1) obtain st1 where a: "st1 \<in> set (ms a st)" and b: "st' \<in> set (ms b st1)"
    by auto
  from ms_suffix [OF a] obtain ys where "fst (snd st) = ys @ fst (snd st1)" by blast
  moreover from assms(2) [OF b] obtain us zs where "fst (snd st1) = us @ name @ zs"
    by (auto simp: occursIn_def)
  ultimately have "fst (snd st) = (ys @ us) @ name @ zs" by simp
  then show ?thesis unfolding occursIn_def by blast
qed

lemma ms_Lit_occurs:
  "st' \<in> set (ms (Seq (Lit name) b) st) \<Longrightarrow> occursIn name (fst (snd st))"
  using ms_Lit_first [of st' name b st] unfolding occursIn_def by (metis append_Nil)

lemma procRxFor_occurs:
  "st' \<in> set (ms (procRxFor name) st) \<Longrightarrow> occursIn name (fst (snd st))"
  unfolding procRxFor_def cat_def foldr.simps o_apply
  apply (erule ms_Seq_occurs)
  apply (erule ms_Seq_occurs)
  apply (erule ms_Seq_occurs)
  apply (erule ms_Seq_occurs)
  apply (erule ms_Seq_occurs)
  apply (erule ms_Lit_occurs)
  done

lemma exportRxFor_occurs:
  "st' \<in> set (ms (exportRxFor name) st) \<Longrightarrow> occursIn name (fst (snd st))"
  unfolding exportRxFor_def cat_def foldr.simps o_apply
  apply (erule ms_Seq_occurs)
  apply (erule ms_Seq_occurs)
  apply (erule ms_Seq_occurs)
  apply (erule ms_Lit_occurs)
  done

lemma searchFrom_Some:
  "searchFrom r p s i = Some m \<Longrightarrow> \<exists>p' s' ys. s = ys @ s' \<and> ms r (p', s', []) \<noteq> []"
proof (induction s arbitrary: p i)
  case Nil
  then have "ms r (p, [], []) \<noteq> []" by (auto split: list.splits)
  then show ?case by blast
next
  case (Cons x xs)
  show ?case
  proof (cases "ms r (p, x # xs, [])")
    case Nil
    with Cons.prems have "searchFrom r (Some x) xs (Suc i) = Some m" by simp
    from Cons.IH [OF this] obtain p' s' ys where "xs = ys @ s'" "ms r (p', s', []) \<noteq> []"
      by blast
    then have "x # xs = (x # ys) @ s' \<and> ms r (p', s', []) \<noteq> []" by simp
    then show ?thesis by blast
  next
    case (Cons a list)
    then have "x # xs = [] @ (x # xs) \<and> ms r (p, x # xs, []) \<noteq> []" by simp
    then show ?thesis by blast
  qed
qed

lemma rxTest_occurs:
  assumes "rxTest r l"
    and "\<And>st' st. st' \<in> set (ms r st) \<Longrightarrow> occursIn name (fst (snd st))"
  shows "indexOf l name \<noteq> None"
proof -
  from assms(1) obtain m where "searchFrom r None l 0 = Some m"
    by (auto simp: rxTest_def rxExec_def)
  from searchFrom_Some [OF this] obtain p' s' ys where l: "l = ys @ s'" and "ms r (p', s', []) \<noteq> []"
    by blast
  then obtain st' where "st' \<in> set (ms r (p', s', []))"
    by (cases "ms r (p', s', [])") auto
  from assms(2) [OF this] obtain us zs where "s' = us @ name @ zs"
    by (auto simp: occursIn_def)
  with l have "l = (ys @ us) @ name @ zs" by simp
  then have "occursIn name l" unfolding occursIn_def by blast
  then show ?thesis by (rule indexOf_occurs)
qed

lemma rxTest_procRxFor_indexOf: "rxTest (procRxFor name) l \<Longrightarrow> indexOf l name \<noteq> None"
  by (erule rxTest_occurs) (erule procRxFor_occurs)

lemma rxTest_exportRxFor_indexOf: "rxTest (exportRxFor name) l \<Longrightarrow> indexOf l name \<noteq> None"
  by (erule rxTest_occurs) (erule exportRxFor_occurs)

lemma searchFrom_Alt_None:
  "(searchFrom (Alt a b) p s i = None) = (searchFrom a p s i = None \<and> searchFrom b p s i = None)"
proof (induction s arbitrary: p i)
  case Nil
  then show ?case by (auto split: list.splits)
next
  case (Cons x xs)
  then show ?case by (auto split: list.splits)
qed

lemma rxTest_Alt: "rxTest (Alt a b) l = (rxTest a l \<or> rxTest b l)"
  using searchFrom_Alt_None [of a b None l 0] by (auto simp: rxTest_def rxExec_def)

lemma scanLines_Miss:
  "list_all (\<lambda>l. \<not> rxTest r l) ls \<Longrightarrow> scanLines r name f ls i = Miss"
  by (induction ls arbitrary: i) simp_all

lemma firstIndexFrom_Alt:
  "list_all (\<lambda>l. \<not> rxTest a l) ls
    \<Longrightarrow> firstIndexFrom (rxTest (Alt a b)) ls i = firstIndexFrom (rxTest b) ls i"
  by (induction ls arbitrary: i) (simp_all add: rxTest_Alt)

lemma firstIndexFrom_bounds:
  "firstIndexFrom P ls i0 = Some i \<Longrightarrow> i0 \<le> i \<and> i - i0 < length ls \<and> P (ls ! (i - i0))"
proof (induction ls arbitrary: i0)
  case Nil
  then show ?case by simp
next
  case (Cons l ls)
  show ?case
  proof (cases "P l")
    case True
    with Cons.prems show ?thesis by simp
  next
    case False
    with Cons.prems have "firstIndexFrom P ls (Suc i0) = Some i" by simp
    from Cons.IH [OF this] have "Suc i0 \<le> i" "i - Suc i0 < length ls" "P (ls ! (i - Suc i0))"
      by simp_all
    moreover from \<open>Suc i0 \<le> i\<close> have "i - i0 = Suc (i - Suc i0)" by simp
    ultimately show ?thesis by simp
  qed
qed

lemma scanLines_first:
  assumes "firstIndexFrom (rxTest r) ls i0 = Some i"
    and "\<And>l. rxTest r l \<Longrightarrow> indexOf l name \<noteq> None"
  shows "\<exists>col. indexOf (ls ! (i - i0)) name = Some col
           \<and> scanLines r name f ls i0 = Hit (Location f (Position i col))"
  using assms(1)
proof (induction ls arbitrary: i0)
  case Nil
  then show ?case by simp
next
  case (Cons l ls)
  show ?case
  proof (cases "rxTest r l")
    case True
    with Cons.prems have "i = i0" by simp
    moreover from assms(2) [OF True] obtain col where "indexOf l name = Some col" by auto
    ultimately show ?thesis using True by simp
  next
    case False
    with Cons.prems have f: "firstIndexFrom (rxTest r) ls (Suc i0) = Some i" by simp
    from firstIndexFrom_bounds [OF f] have "Suc i0 \<le> i" by simp
    then have "i - i0 = Suc (i - Suc i0)" by simp
    with Cons.IH [OF f] False show ?thesis by simp
  qed
qed

section \<open>Properties of the symbol locator\<close>

text \<open>
  Claim C10. A readable file in which no line matches the \<^verbatim>\<open>proc\<close> pattern for a name,
  in which line \<open>i\<close> is the first to match the \<^verbatim>\<open>export.\<close> pattern for it, and whose
  summary has no re-export of the name: \<^verbatim>\<open>findProcedureSource\<close> returns \<^verbatim>\<open>null\<close> for it
  (its direct scan looks for \<^verbatim>\<open>proc\<close> lines only), while \<^verbatim>\<open>findProcedureInFile\<close> returns
  the location of the name on line \<open>i\<close>.
\<close>

theorem export_only_definition_is_missed:
  assumes "readFileSync h f = Some content"
    and "list_all (\<lambda>l. \<not> rxTest (procRxFor name) l) (split content [CHR 0x0A])"
    and "firstIndexFrom (rxTest (exportRxFor name)) (split content [CHR 0x0A]) 0 = Some i"
    and "map_of (reexports (fst (parseFile h st f))) name = None"
    and "f @ '':'' @ name \<notin> set visited"
  shows "findProcedureSource h st f name visited
           = Some (None, snd (parseFile h st f), visited @ [f @ '':'' @ name])
         \<and> (\<exists>col. indexOf (split content [CHR 0x0A] ! i) name = Some col
              \<and> findProcedureInFile h st f name = (Some (Location f (Position i col)), st))"
proof -
  let ?ls = "split content [CHR 0x0A]"
  have "scanLines (procRxFor name) name f ?ls 0 = Miss"
    using assms(2) by (rule scanLines_Miss)
  with assms(1) have d: "directLookup h f name = None"
    by (simp add: directLookup_def scanFile_def)
  obtain pf st1 where p: "parseFile h st f = (pf, st1)" by (cases "parseFile h st f")
  with assms(4) have "map_of (reexports pf) name = None" by simp
  with assms(5) d p have 1: "findProcedureSource h st f name visited
             = Some (None, snd (parseFile h st f), visited @ [f @ '':'' @ name])"
    by (subst findProcedureSource.simps) simp
  have "firstIndexFrom (rxTest (procOrExportRxFor name)) ?ls 0 = Some i"
    using assms(2,3) by (simp add: procOrExportRxFor_def firstIndexFrom_Alt)
  moreover have "\<And>l. rxTest (procOrExportRxFor name) l \<Longrightarrow> indexOf l name \<noteq> None"
    using rxTest_procRxFor_indexOf rxTest_exportRxFor_indexOf
    by (auto simp: procOrExportRxFor_def rxTest_Alt)
  ultimately obtain col where c: "indexOf (?ls ! (i - 0)) name = Some col"
    and s: "scanLines (procOrExportRxFor name) name f ?ls 0 = Hit (Location f (Position i col))"
    using scanLines_first [of "procOrExportRxFor name" ?ls 0 i name f] by blast
  from assms(1) s have "findProcedureInFile h st f name = (Some (Location f (Position i col)), st)"
    by (simp add: findProcedureInFile_def Let_def)
  with c 1 show ?thesis by simp
qed

theorem export_only_definition_is_missed_witness:
  "readFileSync exportHost ''/p/old.masm'' = Some (''export.foo'' @ [CHR 0x0A] @ ''  push.1'' @ [CHR 0x0A] @ ''end'')
   \<and> list_all (\<lambda>l. \<not> rxTest (procRxFor ''foo'') l)
        (split (''export.foo'' @ [CHR 0x0A] @ ''  push.1'' @ [CHR 0x0A] @ ''end'') [CHR 0x0A])
   \<and> firstIndexFrom (rxTest (exportRxFor ''foo''))
        (split (''export.foo'' @ [CHR 0x0A] @ ''  push.1'' @ [CHR 0x0A] @ ''end'') [CHR 0x0A]) 0 = Some 0
   \<and> map_of (reexports (fst (parseFile exportHost noCaches ''/p/old.masm''))) ''foo'' = None
   \<and> fst (parseFile exportHost noCaches ''/p/old.masm'')
       = \<lparr>importsMap = [], procedures = [(''foo'', 0)], reexports = [], constants = []\<rparr>
   \<and> map_option fst (findProcedureSource exportHost noCaches ''/p/old.masm'' ''foo'' []) = Some None
   \<and> findProcedureInFile exportHost noCaches ''/p/old.masm'' ''foo''
       = (Some (Location ''/p/old.masm'' (Position 0 7)), noCaches)"
proof -
  have a: "readFileSync exportHost ''/p/old.masm''
             = Some (''export.foo'' @ [CHR 0x0A] @ ''  push.1'' @ [CHR 0x0A] @ ''end'')"
    by (simp add: readFileSync_def exportHost_def)
  have b: "list_all (\<lambda>l. \<not> rxTest (procRxFor ''foo'') l)
             (split (''export.foo'' @ [CHR 0x0A] @ ''  push.1'' @ [CHR 0x0A] @ ''end'') [CHR 0x0A])"
    by code_simp
  have c: "firstIndexFrom (rxTest (exportRxFor ''foo''))
             (split (''export.foo'' @ [CHR 0x0A] @ ''  push.1'' @ [CHR 0x0A] @ ''end'') [CHR 0x0A]) 0 = Some 0"
    by code_simp
  have p: "fst (parseFile exportHost noCaches ''/p/old.masm'')
             = \<lparr>importsMap = [], procedures = [(''foo'', 0)], reexports = [], constants = []\<rparr>"
    by code_simp
  then have d: "map_of (reexports (fst (parseFile exportHost noCaches ''/p/old.masm''))) ''foo'' = None"
    by simp
  have e: "''/p/old.masm'' @ '':'' @ ''foo'' \<notin> set ([] :: string list)" by simp
  have g: "indexOf (split (''export.foo'' @ [CHR 0x0A] @ ''  push.1'' @ [CHR 0x0A] @ ''end'') [CHR 0x0A] ! 0) ''foo''
             = Some 7"
    by code_simp
  from export_only_definition_is_missed [OF a b c d e] a b c d p g show ?thesis
    by auto
qed

subsection \<open>What the resolver leaves alone\<close>









subsection \<open>Following re-exports\<close>



subsection \<open>The chain of lookups\<close>












subsection \<open>Definition lookup through a re-export\<close>





section \<open>The namespace cache\<close>

lemma normalize_nonempty: "normalize p \<noteq> []"
  by (simp add: normalize_def Let_def)

lemma pathJoin_nonempty: "pathJoin args \<noteq> []"
  by (simp add: pathJoin_def Let_def normalize_nonempty)

text \<open>
  A query that reads the build configuration itself: when the namespace is bound there
  and the module file exists in the bound directory, that file is the answer.
\<close>

lemma bound_namespace_resolves:
  assumes "map_of (moduleCache st) (currentFile @ '':'' @ importPath) = None"
    and "split importPath ''::'' = ''miden'' # ns # rest"
    and "rest \<noteq> []"
    and "map_of (externalNamespaces @ objectPrototype) ns = None"
    and "findWorkspaceRoot h currentFile = Some workspaceRoot"
    and "findNamespaceAsmDir h st workspaceRoot (''miden::'' @ ns) = (Some info, st1)"
    and "existsSync h (pathJoin [pathJoin [crateDir info, ''asm'', asmSubDir info], subPathOf rest])"
  shows "fst (resolveModulePath h st currentFile moduleName importPath)
           = Some (pathJoin [pathJoin [crateDir info, ''asm'', asmSubDir info], subPathOf rest])"
proof -
  from assms(7) have "searchNamespaceCrate h info (subPathOf rest)
      = Some (pathJoin [pathJoin [crateDir info, ''asm'', asmSubDir info], subPathOf rest])"
    by (simp add: searchNamespaceCrate_def tryModulePaths_def Let_def)
  with assms(5,6) have "fst (resolveMiden h st currentFile ns (subPathOf rest))
      = Some (pathJoin [pathJoin [crateDir info, ''asm'', asmSubDir info], subPathOf rest])"
    by (simp add: resolveMiden_def truthy_def pathJoin_nonempty)
  with assms(1,2,3,4) show ?thesis
    by (cases rest; cases "resolveMiden h st currentFile ns (subPathOf rest)")
       (simp_all add: resolveModulePath_def truthy_def Let_def map_add_def)
qed

text \<open>
  Claim C3, on a workspace with one crate whose \<^verbatim>\<open>build.rs\<close> declares
  \<^verbatim>\<open>FOO_LIB_NAMESPACE = "miden::foo"\<close> and \<^verbatim>\<open>ASM_FOO_DIR = "foolib"\<close>, and whose
  \<^verbatim>\<open>asm\<close> directory holds \<^verbatim>\<open>aaa/bar.masm\<close> beside \<^verbatim>\<open>foolib/bar.masm\<close>. With empty
  caches the namespace is bound to the crate and \<^verbatim>\<open>foolib\<close>, and \<^verbatim>\<open>miden::foo::bar\<close>
  resolves to \<^verbatim>\<open>foolib/bar.masm\<close>. Once the namespace cache holds the workspace, the table
  rebuilt from it has the key \<^verbatim>\<open>foo\<close> and an empty crate directory, the namespace is not
  found in it, and the same import resolves to \<^verbatim>\<open>aaa/bar.masm\<close>: from another file of
  the workspace, and from the same file after \<^verbatim>\<open>clearCache\<close>.
\<close>

theorem namespace_cache_drops_the_binding:
  "fst (parseBuildRsNamespaces fooHost noCaches ''/ws'')
     = [(''miden::foo'', \<lparr>crateDir = ''/ws/crates/foo-crate'', asmSubDir = ''foolib''\<rparr>)]
   \<and> existsSync fooHost ''/ws/crates/foo-crate/asm/foolib/bar.masm''
   \<and> fst (resolveModulePath fooHost noCaches ''/ws/crates/foo-crate/asm/foolib/main.masm'' ''bar''
            ''miden::foo::bar'')
       = Some ''/ws/crates/foo-crate/asm/foolib/bar.masm''
   \<and> namespaceCache afterFirstQuery = [(''/ws'', [(''foo'', ''foolib'')])]
   \<and> fst (parseBuildRsNamespaces fooHost afterFirstQuery ''/ws'')
       = [(''foo'', \<lparr>crateDir = [], asmSubDir = ''foolib''\<rparr>)]
   \<and> fst (findNamespaceAsmDir fooHost afterFirstQuery ''/ws'' ''miden::foo'') = None
   \<and> fst (resolveModulePath fooHost afterFirstQuery ''/ws/crates/foo-crate/asm/foolib/next.masm'' ''bar''
            ''miden::foo::bar'')
       = Some ''/ws/crates/foo-crate/asm/aaa/bar.masm''
   \<and> fst (resolveModulePath fooHost
            (clearCache afterFirstQuery ''/ws/crates/foo-crate/asm/foolib/main.masm'')
            ''/ws/crates/foo-crate/asm/foolib/main.masm'' ''bar'' ''miden::foo::bar'')
       = Some ''/ws/crates/foo-crate/asm/aaa/bar.masm''"
  by code_simp

end
